theory Spec2Isabelle
  imports Main
begin

section \<open>The RFC validator of \<^verbatim>\<open>src/utils/rfcValidator.ts\<close>\<close>

subsection \<open>JavaScript strings\<close>

text \<open>
  A JavaScript string is a sequence of UTF-16 code units and \<^verbatim>\<open>length\<close> counts code
  units, so a string is a list of code units, each a natural number. An ASCII literal of
  the source is written \<open>js ''...''\<close>; the letter N with tilde of the source is the single
  code unit 209 (U+00D1).
\<close>

type_synonym codeunit = nat
type_synonym jsstring = "codeunit list"

definition js :: "string \<Rightarrow> jsstring" where
  "js s = map of_char s"

text \<open>
  \<^verbatim>\<open>WhiteSpace\<close> and \<^verbatim>\<open>LineTerminator\<close> of ECMAScript: the code units that
  \<^verbatim>\<open>String.prototype.trim\<close> strips and that the regular expression class \<^verbatim>\<open>\s\<close>
  matches (tab, line feed, vertical tab, form feed, carriage return, space, no-break
  space, U+1680, U+2000 to U+200A, U+2028, U+2029, U+202F, U+205F, U+3000, U+FEFF).
\<close>

definition isWhiteSpace :: "codeunit \<Rightarrow> bool" where
  "isWhiteSpace c =
     ((9 \<le> c \<and> c \<le> 13) \<or> c = 32 \<or> c = 160 \<or> c = 5760 \<or> (8192 \<le> c \<and> c \<le> 8202)
      \<or> c = 8232 \<or> c = 8233 \<or> c = 8239 \<or> c = 8287 \<or> c = 12288 \<or> c = 65279)"

text \<open>\<^verbatim>\<open>s.trim()\<close>: white space is dropped at both ends.\<close>

definition trim :: "jsstring \<Rightarrow> jsstring" where
  "trim s = rev (dropWhile isWhiteSpace (rev (dropWhile isWhiteSpace s)))"

text \<open>
  \<^verbatim>\<open>s.toUpperCase()\<close> works on code points, not on code units: the string is read as
  code points, a high surrogate (U+D800 to U+DBFF) directly followed by a low surrogate
  (U+DC00 to U+DFFF) being one code point above U+FFFF and any other surrogate standing
  for itself; every code point is replaced by its upper case, which can be several code
  points; the code points are written back as code units.
\<close>

definition isHighSurrogate :: "codeunit \<Rightarrow> bool" where
  "isHighSurrogate c = (55296 \<le> c \<and> c \<le> 56319)"

definition isLowSurrogate :: "codeunit \<Rightarrow> bool" where
  "isLowSurrogate c = (56320 \<le> c \<and> c \<le> 57343)"

fun codePoints :: "jsstring \<Rightarrow> nat list" where
  "codePoints [] = []"
| "codePoints [c] = [c]"
| "codePoints (h # l # rest) =
     (if isHighSurrogate h \<and> isLowSurrogate l
      then (65536 + (h - 55296) * 1024 + (l - 56320)) # codePoints rest
      else h # codePoints (l # rest))"

definition codeUnits :: "nat \<Rightarrow> jsstring" where
  "codeUnits p =
     (if p < 65536 then [p]
      else [55296 + (p - 65536) div 1024, 56320 + (p - 65536) mod 1024])"

text \<open>
  The upper case of a code point is the locale-independent full mapping of the Unicode
  Character Database (the upper-case field of \<^verbatim>\<open>UnicodeData.txt\<close> and the unconditional
  entries of \<^verbatim>\<open>SpecialCasing.txt\<close>, here of Unicode 14.0; versions 15.0 and 15.1 add no
  case mapping). An entry \<open>(first, last, step, targets)\<close> of the table says that the code
  points \<open>first\<close>, \<open>first + step\<close>, ... up to \<open>last\<close> have an upper case, and that the
  upper case of \<open>first + k\<close> is the list \<open>targets\<close> with \<open>k\<close> added to each of its
  members. A code point in no entry is its own upper case. The table is ordered by
  code point.
\<close>

type_synonym caseEntry = "nat \<times> nat \<times> nat \<times> nat list"

definition UPPER_TABLE :: "caseEntry list" where
  "UPPER_TABLE =
    [(97, 122, 1, [65]), (181, 181, 1, [924]), (223, 223, 1, [83, 83]),
     (224, 246, 1, [192]), (248, 254, 1, [216]), (255, 255, 1, [376]), (257, 303, 2, [256]),
     (305, 305, 1, [73]), (307, 311, 2, [306]), (314, 328, 2, [313]),
     (329, 329, 1, [700, 78]), (331, 375, 2, [330]), (378, 382, 2, [377]),
     (383, 383, 1, [83]), (384, 384, 1, [579]), (387, 389, 2, [386]), (392, 392, 1, [391]),
     (396, 396, 1, [395]), (402, 402, 1, [401]), (405, 405, 1, [502]), (409, 409, 1, [408]),
     (410, 410, 1, [573]), (414, 414, 1, [544]), (417, 421, 2, [416]), (424, 424, 1, [423]),
     (429, 429, 1, [428]), (432, 432, 1, [431]), (436, 438, 2, [435]), (441, 441, 1, [440]),
     (445, 445, 1, [444]), (447, 447, 1, [503]), (453, 453, 1, [452]), (454, 454, 1, [452]),
     (456, 456, 1, [455]), (457, 457, 1, [455]), (459, 459, 1, [458]), (460, 460, 1, [458]),
     (462, 476, 2, [461]), (477, 477, 1, [398]), (479, 495, 2, [478]),
     (496, 496, 1, [74, 780]), (498, 498, 1, [497]), (499, 499, 1, [497]),
     (501, 501, 1, [500]), (505, 543, 2, [504]), (547, 563, 2, [546]), (572, 572, 1, [571]),
     (575, 576, 1, [11390]), (578, 578, 1, [577]), (583, 591, 2, [582]),
     (592, 592, 1, [11375]), (593, 593, 1, [11373]), (594, 594, 1, [11376]),
     (595, 595, 1, [385]), (596, 596, 1, [390]), (598, 599, 1, [393]), (601, 601, 1, [399]),
     (603, 603, 1, [400]), (604, 604, 1, [42923]), (608, 608, 1, [403]),
     (609, 609, 1, [42924]), (611, 611, 1, [404]), (613, 613, 1, [42893]),
     (614, 614, 1, [42922]), (616, 616, 1, [407]), (617, 617, 1, [406]),
     (618, 618, 1, [42926]), (619, 619, 1, [11362]), (620, 620, 1, [42925]),
     (623, 623, 1, [412]), (625, 625, 1, [11374]), (626, 626, 1, [413]),
     (629, 629, 1, [415]), (637, 637, 1, [11364]), (640, 640, 1, [422]),
     (642, 642, 1, [42949]), (643, 643, 1, [425]), (647, 647, 1, [42929]),
     (648, 648, 1, [430]), (649, 649, 1, [580]), (650, 651, 1, [433]), (652, 652, 1, [581]),
     (658, 658, 1, [439]), (669, 669, 1, [42930]), (670, 670, 1, [42928]),
     (837, 837, 1, [921]), (881, 883, 2, [880]), (887, 887, 1, [886]),
     (891, 893, 1, [1021]), (912, 912, 1, [921, 776, 769]), (940, 940, 1, [902]),
     (941, 943, 1, [904]), (944, 944, 1, [933, 776, 769]), (945, 961, 1, [913]),
     (962, 962, 1, [931]), (963, 971, 1, [931]), (972, 972, 1, [908]), (973, 974, 1, [910]),
     (976, 976, 1, [914]), (977, 977, 1, [920]), (981, 981, 1, [934]), (982, 982, 1, [928]),
     (983, 983, 1, [975]), (985, 1007, 2, [984]), (1008, 1008, 1, [922]),
     (1009, 1009, 1, [929]), (1010, 1010, 1, [1017]), (1011, 1011, 1, [895]),
     (1013, 1013, 1, [917]), (1016, 1016, 1, [1015]), (1019, 1019, 1, [1018]),
     (1072, 1103, 1, [1040]), (1104, 1119, 1, [1024]), (1121, 1153, 2, [1120]),
     (1163, 1215, 2, [1162]), (1218, 1230, 2, [1217]), (1231, 1231, 1, [1216]),
     (1233, 1327, 2, [1232]), (1377, 1414, 1, [1329]), (1415, 1415, 1, [1333, 1362]),
     (4304, 4346, 1, [7312]), (4349, 4351, 1, [7357]), (5112, 5117, 1, [5104]),
     (7296, 7296, 1, [1042]), (7297, 7297, 1, [1044]), (7298, 7298, 1, [1054]),
     (7299, 7300, 1, [1057]), (7301, 7301, 1, [1058]), (7302, 7302, 1, [1066]),
     (7303, 7303, 1, [1122]), (7304, 7304, 1, [42570]), (7545, 7545, 1, [42877]),
     (7549, 7549, 1, [11363]), (7566, 7566, 1, [42950]), (7681, 7829, 2, [7680]),
     (7830, 7830, 1, [72, 817]), (7831, 7831, 1, [84, 776]), (7832, 7832, 1, [87, 778]),
     (7833, 7833, 1, [89, 778]), (7834, 7834, 1, [65, 702]), (7835, 7835, 1, [7776]),
     (7841, 7935, 2, [7840]), (7936, 7943, 1, [7944]), (7952, 7957, 1, [7960]),
     (7968, 7975, 1, [7976]), (7984, 7991, 1, [7992]), (8000, 8005, 1, [8008]),
     (8016, 8016, 1, [933, 787]), (8017, 8017, 1, [8025]), (8018, 8018, 1, [933, 787, 768]),
     (8019, 8019, 1, [8027]), (8020, 8020, 1, [933, 787, 769]), (8021, 8021, 1, [8029]),
     (8022, 8022, 1, [933, 787, 834]), (8023, 8023, 1, [8031]), (8032, 8039, 1, [8040]),
     (8048, 8049, 1, [8122]), (8050, 8053, 1, [8136]), (8054, 8055, 1, [8154]),
     (8056, 8057, 1, [8184]), (8058, 8059, 1, [8170]), (8060, 8061, 1, [8186]),
     (8064, 8064, 1, [7944, 921]), (8065, 8065, 1, [7945, 921]),
     (8066, 8066, 1, [7946, 921]), (8067, 8067, 1, [7947, 921]),
     (8068, 8068, 1, [7948, 921]), (8069, 8069, 1, [7949, 921]),
     (8070, 8070, 1, [7950, 921]), (8071, 8071, 1, [7951, 921]),
     (8072, 8072, 1, [7944, 921]), (8073, 8073, 1, [7945, 921]),
     (8074, 8074, 1, [7946, 921]), (8075, 8075, 1, [7947, 921]),
     (8076, 8076, 1, [7948, 921]), (8077, 8077, 1, [7949, 921]),
     (8078, 8078, 1, [7950, 921]), (8079, 8079, 1, [7951, 921]),
     (8080, 8080, 1, [7976, 921]), (8081, 8081, 1, [7977, 921]),
     (8082, 8082, 1, [7978, 921]), (8083, 8083, 1, [7979, 921]),
     (8084, 8084, 1, [7980, 921]), (8085, 8085, 1, [7981, 921]),
     (8086, 8086, 1, [7982, 921]), (8087, 8087, 1, [7983, 921]),
     (8088, 8088, 1, [7976, 921]), (8089, 8089, 1, [7977, 921]),
     (8090, 8090, 1, [7978, 921]), (8091, 8091, 1, [7979, 921]),
     (8092, 8092, 1, [7980, 921]), (8093, 8093, 1, [7981, 921]),
     (8094, 8094, 1, [7982, 921]), (8095, 8095, 1, [7983, 921]),
     (8096, 8096, 1, [8040, 921]), (8097, 8097, 1, [8041, 921]),
     (8098, 8098, 1, [8042, 921]), (8099, 8099, 1, [8043, 921]),
     (8100, 8100, 1, [8044, 921]), (8101, 8101, 1, [8045, 921]),
     (8102, 8102, 1, [8046, 921]), (8103, 8103, 1, [8047, 921]),
     (8104, 8104, 1, [8040, 921]), (8105, 8105, 1, [8041, 921]),
     (8106, 8106, 1, [8042, 921]), (8107, 8107, 1, [8043, 921]),
     (8108, 8108, 1, [8044, 921]), (8109, 8109, 1, [8045, 921]),
     (8110, 8110, 1, [8046, 921]), (8111, 8111, 1, [8047, 921]), (8112, 8113, 1, [8120]),
     (8114, 8114, 1, [8122, 921]), (8115, 8115, 1, [913, 921]), (8116, 8116, 1, [902, 921]),
     (8118, 8118, 1, [913, 834]), (8119, 8119, 1, [913, 834, 921]),
     (8124, 8124, 1, [913, 921]), (8126, 8126, 1, [921]), (8130, 8130, 1, [8138, 921]),
     (8131, 8131, 1, [919, 921]), (8132, 8132, 1, [905, 921]), (8134, 8134, 1, [919, 834]),
     (8135, 8135, 1, [919, 834, 921]), (8140, 8140, 1, [919, 921]), (8144, 8145, 1, [8152]),
     (8146, 8146, 1, [921, 776, 768]), (8147, 8147, 1, [921, 776, 769]),
     (8150, 8150, 1, [921, 834]), (8151, 8151, 1, [921, 776, 834]), (8160, 8161, 1, [8168]),
     (8162, 8162, 1, [933, 776, 768]), (8163, 8163, 1, [933, 776, 769]),
     (8164, 8164, 1, [929, 787]), (8165, 8165, 1, [8172]), (8166, 8166, 1, [933, 834]),
     (8167, 8167, 1, [933, 776, 834]), (8178, 8178, 1, [8186, 921]),
     (8179, 8179, 1, [937, 921]), (8180, 8180, 1, [911, 921]), (8182, 8182, 1, [937, 834]),
     (8183, 8183, 1, [937, 834, 921]), (8188, 8188, 1, [937, 921]), (8526, 8526, 1, [8498]),
     (8560, 8575, 1, [8544]), (8580, 8580, 1, [8579]), (9424, 9449, 1, [9398]),
     (11312, 11359, 1, [11264]), (11361, 11361, 1, [11360]), (11365, 11365, 1, [570]),
     (11366, 11366, 1, [574]), (11368, 11372, 2, [11367]), (11379, 11379, 1, [11378]),
     (11382, 11382, 1, [11381]), (11393, 11491, 2, [11392]), (11500, 11502, 2, [11499]),
     (11507, 11507, 1, [11506]), (11520, 11557, 1, [4256]), (11559, 11559, 1, [4295]),
     (11565, 11565, 1, [4301]), (42561, 42605, 2, [42560]), (42625, 42651, 2, [42624]),
     (42787, 42799, 2, [42786]), (42803, 42863, 2, [42802]), (42874, 42876, 2, [42873]),
     (42879, 42887, 2, [42878]), (42892, 42892, 1, [42891]), (42897, 42899, 2, [42896]),
     (42900, 42900, 1, [42948]), (42903, 42921, 2, [42902]), (42933, 42947, 2, [42932]),
     (42952, 42954, 2, [42951]), (42961, 42961, 1, [42960]), (42967, 42969, 2, [42966]),
     (42998, 42998, 1, [42997]), (43859, 43859, 1, [42931]), (43888, 43967, 1, [5024]),
     (64256, 64256, 1, [70, 70]), (64257, 64257, 1, [70, 73]), (64258, 64258, 1, [70, 76]),
     (64259, 64259, 1, [70, 70, 73]), (64260, 64260, 1, [70, 70, 76]),
     (64261, 64261, 1, [83, 84]), (64262, 64262, 1, [83, 84]),
     (64275, 64275, 1, [1348, 1350]), (64276, 64276, 1, [1348, 1333]),
     (64277, 64277, 1, [1348, 1339]), (64278, 64278, 1, [1358, 1350]),
     (64279, 64279, 1, [1348, 1341]), (65345, 65370, 1, [65313]),
     (66600, 66639, 1, [66560]), (66776, 66811, 1, [66736]), (66967, 66977, 1, [66928]),
     (66979, 66993, 1, [66940]), (66995, 67001, 1, [66956]), (67003, 67004, 1, [66964]),
     (68800, 68850, 1, [68736]), (71872, 71903, 1, [71840]), (93792, 93823, 1, [93760]),
     (125218, 125251, 1, [125184])]"

fun lookupCase :: "caseEntry list \<Rightarrow> nat \<Rightarrow> nat list option" where
  "lookupCase [] c = None"
| "lookupCase ((lo, hi, step, ts) # es) c =
     (if lo \<le> c \<and> c \<le> hi \<and> (c - lo) mod step = 0 then Some (map (\<lambda>t. t + (c - lo)) ts)
      else lookupCase es c)"

definition upperPoint :: "nat \<Rightarrow> nat list" where
  "upperPoint c = (case lookupCase UPPER_TABLE c of Some ds \<Rightarrow> ds | None \<Rightarrow> [c])"

definition toUpperCase :: "jsstring \<Rightarrow> jsstring" where
  "toUpperCase s = concat (map codeUnits (concat (map upperPoint (codePoints s))))"

text \<open>
  A Unicode scalar value is a code point that is not a surrogate. A string whose code
  points are all scalar values is well-formed UTF-16: it has no unpaired surrogate.
\<close>

definition isScalarValue :: "nat \<Rightarrow> bool" where
  "isScalarValue p = (p < 1114112 \<and> \<not> isHighSurrogate p \<and> \<not> isLowSurrogate p)"

text \<open>\<^verbatim>\<open>s.replace(/\s+/g, '')\<close>: every run of white space is deleted.\<close>

definition removeWhiteSpace :: "jsstring \<Rightarrow> jsstring" where
  "removeWhiteSpace s = filter (\<lambda>c. \<not> isWhiteSpace c) s"

text \<open>
  \<^verbatim>\<open>s.substring(a, b)\<close>: the code units from index \<open>min a b\<close> up to, not including,
  index \<open>max a b\<close>, both clamped to the length of the string.
\<close>

definition substring :: "jsstring \<Rightarrow> nat \<Rightarrow> nat \<Rightarrow> jsstring" where
  "substring s a b = take (max a b - min a b) (drop (min a b) s)"

text \<open>
  Fixed-width regular expressions \<^verbatim>\<open>^C1{n1}C2{n2}...$\<close> (no flags): the string is
  exactly \<open>n1\<close> code units of class \<open>C1\<close>, then \<open>n2\<close> of class \<open>C2\<close>, and so on.
\<close>

fun matchFields :: "((codeunit \<Rightarrow> bool) \<times> nat) list \<Rightarrow> jsstring \<Rightarrow> bool" where
  "matchFields [] s = (s = [])"
| "matchFields ((cls, n) # fs) s =
     (n \<le> length s \<and> list_all cls (take n s) \<and> matchFields fs (drop n s))"

text \<open>The character classes \<^verbatim>\<open>[A-Z&N~]\<close>, \<^verbatim>\<open>[0-9]\<close> (also \<^verbatim>\<open>\d\<close>) and \<^verbatim>\<open>[A-Z0-9]\<close>.\<close>

definition isLetra :: "codeunit \<Rightarrow> bool" where
  "isLetra c = ((65 \<le> c \<and> c \<le> 90) \<or> c = 38 \<or> c = 209)"

definition isDigit :: "codeunit \<Rightarrow> bool" where
  "isDigit c = (48 \<le> c \<and> c \<le> 57)"

definition isAlnum :: "codeunit \<Rightarrow> bool" where
  "isAlnum c = ((65 \<le> c \<and> c \<le> 90) \<or> (48 \<le> c \<and> c \<le> 57))"

text \<open>
  \<^verbatim>\<open>parseInt(s, 10)\<close> on a string of decimal digits. The source calls it on two-digit
  slices of a date only after the test \<^verbatim>\<open>/^\d{6}$/\<close> has passed.
\<close>

definition parseInt10 :: "jsstring \<Rightarrow> int" where
  "parseInt10 s = foldl (\<lambda>acc c. 10 * acc + (int c - 48)) 0 s"

text \<open>The remainder \<^verbatim>\<open>a % b\<close> of JavaScript takes the sign of the dividend.\<close>

definition jsRem :: "int \<Rightarrow> int \<Rightarrow> int" where
  "jsRem a b = sgn a * (\<bar>a\<bar> mod \<bar>b\<bar>)"

text \<open>\<^verbatim>\<open>String(n)\<close> for an integer and \<^verbatim>\<open>s.padStart(n, c)\<close> for a one-unit pad.\<close>

fun digitsOf :: "nat \<Rightarrow> jsstring" where
  "digitsOf n = (if n < 10 then [48 + n] else digitsOf (n div 10) @ [48 + n mod 10])"

declare digitsOf.simps [simp del]

definition String_of_int :: "int \<Rightarrow> jsstring" where
  "String_of_int i = (if i < 0 then 45 # digitsOf (nat (- i)) else digitsOf (nat i))"

definition padStart :: "jsstring \<Rightarrow> nat \<Rightarrow> codeunit \<Rightarrow> jsstring" where
  "padStart s n c = replicate (n - length s) c @ s"

subsection \<open>The analysis record and its errors\<close>

datatype tipo_persona = FISICA | MORAL

text \<open>The field names that \<^verbatim>\<open>validateLetters\<close> is called with.\<close>

datatype campo = ApellidoPaterno | ApellidoMaterno | Nombre | RazonSocial

text \<open>
  One constructor for each message the validator pushes; a message with an interpolated
  value carries that value.
  \<^item> \<open>RfcRequerido\<close>: \<^verbatim>\<open>RFC es requerido\<close>
  \<^item> \<open>LongitudInvalida\<close>: \<^verbatim>\<open>RFC debe tener 12 caracteres (Persona Moral) o 13 caracteres (Persona Fisica)\<close>
  \<^item> \<open>FormatoFisicaInvalido\<close>: \<^verbatim>\<open>Formato de RFC de Persona Fisica invalido\<close>
  \<^item> \<open>FormatoMoralInvalido\<close>: \<^verbatim>\<open>Formato de RFC de Persona Moral invalido\<close>
  \<^item> \<open>LetrasInvalidas f\<close>: \<^verbatim>\<open>${fieldName} debe contener solo letras validas (A-Z, N~, &)\<close>
  \<^item> \<open>FechaNacimientoFormato\<close>: \<^verbatim>\<open>Fecha de nacimiento debe tener formato AAMMDD\<close>
  \<^item> \<open>MesNacimientoInvalido\<close>: \<^verbatim>\<open>Mes de nacimiento invalido (01-12)\<close>
  \<^item> \<open>DiaNacimientoInvalido\<close>: \<^verbatim>\<open>Dia de nacimiento invalido (01-31)\<close>
  \<^item> \<open>AnioNacimientoInvalido\<close>: \<^verbatim>\<open>Ano de nacimiento parece invalido\<close>
  \<^item> \<open>FechaConstitucionFormato\<close>: \<^verbatim>\<open>Fecha de constitucion debe tener formato AAMMDD\<close>
  \<^item> \<open>MesConstitucionInvalido\<close>: \<^verbatim>\<open>Mes de constitucion invalido (01-12)\<close>
  \<^item> \<open>DiaConstitucionInvalido\<close>: \<^verbatim>\<open>Dia de constitucion invalido (01-31)\<close>
  \<^item> \<open>HomoclaveInvalida\<close>: \<^verbatim>\<open>Homoclave debe tener 3 caracteres alfanumericos\<close>
  \<^item> \<open>InicialesProhibidas w\<close>: \<^verbatim>\<open>Las iniciales "${w}" no estan permitidas en RFC\<close>
  \<^item> \<open>CaracterInvalido c i\<close>: \<^verbatim>\<open>Caracter invalido encontrado: "${c}" en posicion ${i}\<close>
\<close>

datatype rfc_error =
    RfcRequerido
  | LongitudInvalida
  | FormatoFisicaInvalido
  | FormatoMoralInvalido
  | LetrasInvalidas campo
  | FechaNacimientoFormato
  | MesNacimientoInvalido
  | DiaNacimientoInvalido
  | AnioNacimientoInvalido
  | FechaConstitucionFormato
  | MesConstitucionInvalido
  | DiaConstitucionInvalido
  | HomoclaveInvalida
  | InicialesProhibidas jsstring
  | CaracterInvalido codeunit nat

text \<open>
  The interface \<^verbatim>\<open>RFCAnalysis\<close>. Its field \<^verbatim>\<open>length\<close> is \<open>length_rfc\<close> here, and the
  value \<^verbatim>\<open>null\<close> of \<^verbatim>\<open>tipoPersona\<close> is \<open>None\<close>.
\<close>

record RFCAnalysis =
  isValid :: bool
  tipoPersona :: "tipo_persona option"
  length_rfc :: nat
  format :: jsstring
  errors :: "rfc_error list"

text \<open>\<^verbatim>\<open>result.errors.push(e)\<close>: the result is mutated in place, here returned updated.\<close>

definition push :: "rfc_error \<Rightarrow> RFCAnalysis \<Rightarrow> RFCAnalysis" where
  "push e result = result\<lparr>errors := errors result @ [e]\<rparr>"

subsection \<open>Constants of the class\<close>

definition RFC_FISICA_REGEX :: "jsstring \<Rightarrow> bool" where
  "RFC_FISICA_REGEX s = matchFields [(isLetra, 4), (isDigit, 6), (isAlnum, 3)] s"

definition RFC_MORAL_REGEX :: "jsstring \<Rightarrow> bool" where
  "RFC_MORAL_REGEX s = matchFields [(isLetra, 3), (isDigit, 6), (isAlnum, 3)] s"

definition VALID_CHARS :: jsstring where
  "VALID_CHARS = js ''ABCDEFGHIJKLMN'' @ [209] @ js ''OPQRSTUVWXYZ0123456789&''"

definition FORBIDDEN_WORDS :: "jsstring list" where
  "FORBIDDEN_WORDS = map js
    [''BUEI'', ''BUEY'', ''CACA'', ''CACO'', ''CAGA'', ''CAGO'', ''CAKA'', ''CAKO'',
     ''COGE'', ''COGI'', ''COJA'', ''COJE'', ''COJI'', ''COJO'', ''COLA'', ''CULO'',
     ''FALO'', ''FETO'', ''GETA'', ''GUEY'', ''JETA'', ''JOTO'', ''KACA'', ''KACO'',
     ''KAGA'', ''KAGO'', ''KAKA'', ''KAKO'', ''KOGE'', ''KOGI'', ''KOJA'', ''KOJE'',
     ''KOJI'', ''KOJO'', ''KOLA'', ''KULO'', ''LILO'', ''LOCA'', ''LOCO'', ''LOKA'',
     ''LOKO'', ''MAME'', ''MAMO'', ''MEAR'', ''MEAS'', ''MEON'', ''MIAR'', ''MION'',
     ''MOCO'', ''MOKO'', ''MULA'', ''MULO'', ''NACA'', ''NACO'', ''PEDA'', ''PEDO'',
     ''PENE'', ''PIPI'', ''PITO'', ''POPO'', ''PUTA'', ''PUTO'', ''QULO'', ''RATA'',
     ''ROBA'', ''ROBE'', ''ROBO'', ''RUIN'', ''SENO'', ''TETA'', ''VACA'', ''VAGA'',
     ''VAGO'', ''VAKA'', ''VUEI'', ''VUEY'', ''WUEI'', ''WUEY'']"

subsection \<open>The component checks\<close>

text \<open>\<^verbatim>\<open>validateLetters\<close>: the test is \<^verbatim>\<open>/^[A-Z&N~]+$/\<close>, one letter or more.\<close>

definition validateLetters :: "jsstring \<Rightarrow> campo \<Rightarrow> RFCAnalysis \<Rightarrow> RFCAnalysis" where
  "validateLetters text fieldName result =
     (if \<not> (text \<noteq> [] \<and> list_all isLetra text) then push (LetrasInvalidas fieldName) result
      else result)"

text \<open>
  \<^verbatim>\<open>validateFechaNacimiento\<close>. The source reads the clock,
  \<^verbatim>\<open>new Date().getFullYear()\<close>; the model takes that full year as the argument
  \<open>fullYear\<close>.
\<close>

definition validateFechaNacimiento :: "int \<Rightarrow> jsstring \<Rightarrow> RFCAnalysis \<Rightarrow> RFCAnalysis" where
  "validateFechaNacimiento fullYear fecha result =
     (if \<not> matchFields [(isDigit, 6)] fecha then push FechaNacimientoFormato result
      else
        let anio = parseInt10 (substring fecha 0 2);
            mes = parseInt10 (substring fecha 2 4);
            dia = parseInt10 (substring fecha 4 6);
            r1 = (if mes < 1 \<or> mes > 12 then push MesNacimientoInvalido result else result);
            r2 = (if dia < 1 \<or> dia > 31 then push DiaNacimientoInvalido r1 else r1);
            currentYear = jsRem fullYear 100
        in if anio > currentYear + 10 then push AnioNacimientoInvalido r2 else r2)"

definition validateFechaConstitucion :: "jsstring \<Rightarrow> RFCAnalysis \<Rightarrow> RFCAnalysis" where
  "validateFechaConstitucion fecha result =
     (if \<not> matchFields [(isDigit, 6)] fecha then push FechaConstitucionFormato result
      else
        let mes = parseInt10 (substring fecha 2 4);
            dia = parseInt10 (substring fecha 4 6);
            r1 = (if mes < 1 \<or> mes > 12 then push MesConstitucionInvalido result else result)
        in if dia < 1 \<or> dia > 31 then push DiaConstitucionInvalido r1 else r1)"

definition validateHomoclave :: "jsstring \<Rightarrow> RFCAnalysis \<Rightarrow> RFCAnalysis" where
  "validateHomoclave homoclave result =
     (if \<not> matchFields [(isAlnum, 3)] homoclave then push HomoclaveInvalida result
      else result)"

text \<open>
  \<^verbatim>\<open>validateCharacters\<close>: the loop over the indices \<open>i\<close> of the string, reporting the
  position \<open>i + 1\<close>. \<open>validateCharactersFrom i\<close> is the loop from index \<open>i\<close> on, over
  the rest of the string.
\<close>

fun validateCharactersFrom :: "nat \<Rightarrow> jsstring \<Rightarrow> RFCAnalysis \<Rightarrow> RFCAnalysis" where
  "validateCharactersFrom i [] result = result"
| "validateCharactersFrom i (c # cs) result =
     validateCharactersFrom (i + 1) cs
       (if \<not> List.member VALID_CHARS c then push (CaracterInvalido c (i + 1)) result
        else result)"

definition validateCharacters :: "jsstring \<Rightarrow> RFCAnalysis \<Rightarrow> RFCAnalysis" where
  "validateCharacters rfc result = validateCharactersFrom 0 rfc result"

subsection \<open>The two variants and the entry points\<close>

definition validatePersonaFisica :: "int \<Rightarrow> jsstring \<Rightarrow> RFCAnalysis \<Rightarrow> RFCAnalysis" where
  "validatePersonaFisica fullYear rfc result =
     (if \<not> RFC_FISICA_REGEX rfc then push FormatoFisicaInvalido result
      else
        let apellidoPaterno = substring rfc 0 2;
            apellidoMaterno = substring rfc 2 3;
            nombre = substring rfc 3 4;
            fechaNacimiento = substring rfc 4 10;
            homoclave = substring rfc 10 13;
            r1 = validateLetters apellidoPaterno ApellidoPaterno result;
            r2 = validateLetters apellidoMaterno ApellidoMaterno r1;
            r3 = validateLetters nombre Nombre r2;
            r4 = validateFechaNacimiento fullYear fechaNacimiento r3;
            r5 = validateHomoclave homoclave r4;
            iniciales = substring rfc 0 4;
            r6 = (if List.member FORBIDDEN_WORDS iniciales
                  then push (InicialesProhibidas iniciales) r5 else r5);
            r7 = validateCharacters rfc r6
        in r7\<lparr>isValid := (length (errors r7) = 0)\<rparr>)"

definition validatePersonaMoral :: "jsstring \<Rightarrow> RFCAnalysis \<Rightarrow> RFCAnalysis" where
  "validatePersonaMoral rfc result =
     (if \<not> RFC_MORAL_REGEX rfc then push FormatoMoralInvalido result
      else
        let razonSocial = substring rfc 0 3;
            fechaConstitucion = substring rfc 3 9;
            homoclave = substring rfc 9 12;
            r1 = validateLetters razonSocial RazonSocial result;
            r2 = validateFechaConstitucion fechaConstitucion r1;
            r3 = validateHomoclave homoclave r2;
            r4 = (if List.member FORBIDDEN_WORDS razonSocial
                  then push (InicialesProhibidas razonSocial) r3 else r3);
            r5 = validateCharacters rfc r4
        in r5\<lparr>isValid := (length (errors r5) = 0)\<rparr>)"

text \<open>
  \<^verbatim>\<open>validate\<close>. The parameter is typed \<^verbatim>\<open>string\<close>, so \<^verbatim>\<open>!rfc\<close> holds exactly for
  the empty string.
\<close>

definition validate :: "int \<Rightarrow> jsstring \<Rightarrow> RFCAnalysis" where
  "validate fullYear rfc =
     (let result = \<lparr>isValid = False, tipoPersona = None, length_rfc = 0, format = [],
                    errors = []\<rparr>
      in if rfc = [] then push RfcRequerido result
         else
           let cleanRFC = removeWhiteSpace (toUpperCase (trim rfc));
               result1 = result\<lparr>length_rfc := length cleanRFC, format := cleanRFC\<rparr>
           in if length cleanRFC \<noteq> 12 \<and> length cleanRFC \<noteq> 13
              then push LongitudInvalida result1
              else if length cleanRFC = 13
              then validatePersonaFisica fullYear cleanRFC (result1\<lparr>tipoPersona := Some FISICA\<rparr>)
              else validatePersonaMoral cleanRFC (result1\<lparr>tipoPersona := Some MORAL\<rparr>))"

definition getTipoPersona :: "jsstring \<Rightarrow> tipo_persona option" where
  "getTipoPersona rfc =
     (if rfc = [] then None
      else
        let cleanRFC = removeWhiteSpace (toUpperCase (trim rfc))
        in if length cleanRFC = 13 then Some FISICA
           else if length cleanRFC = 12 then Some MORAL
           else None)"

definition normalize :: "jsstring \<Rightarrow> jsstring" where
  "normalize rfc = (if rfc = [] then [] else removeWhiteSpace (toUpperCase (trim rfc)))"

text \<open>\<^verbatim>\<open>generateExample\<close>, again with the full year of the clock as an argument.\<close>

definition generateExample :: "int \<Rightarrow> tipo_persona \<Rightarrow> jsstring" where
  "generateExample fullYear tipo =
     (let currentYear = jsRem fullYear 100;
          year = padStart (String_of_int (currentYear - 25)) 2 48;
          month = js ''06'';
          day = js ''15'';
          homoclave = js ''ABC''
      in if tipo = FISICA then js ''GOPE'' @ year @ month @ day @ homoclave
         else js ''TUB'' @ year @ month @ day @ homoclave)"

subsection \<open>A search tree over the case table\<close>

text \<open>
  The definitions of this subsection are not in the source. They serve the proofs about
  the case table: the table again as a search tree, whose entries in order are the
  table, and the checks that its entries are ordered and apart from each other and
  that the upper case of a code point has no upper case of its own.
\<close>

datatype caseTree = Tip | Fork caseTree caseEntry caseTree

definition UPPER_TREE :: caseTree where
  "UPPER_TREE =
    (Fork
      (Fork
        (Fork
          (Fork
            (Fork
              (Fork
                (Fork
                  (Fork
                    (Fork Tip (97, 122, 1, [65]) Tip)
                    (181, 181, 1, [924])
                    Tip)
                  (223, 223, 1, [83, 83])
                  (Fork Tip (224, 246, 1, [192]) Tip))
                (248, 254, 1, [216])
                (Fork
                  (Fork
                    (Fork Tip (255, 255, 1, [376]) Tip)
                    (257, 303, 2, [256])
                    Tip)
                  (305, 305, 1, [73])
                  (Fork Tip (307, 311, 2, [306]) Tip)))
              (314, 328, 2, [313])
              (Fork
                (Fork
                  (Fork
                    (Fork Tip (329, 329, 1, [700, 78]) Tip)
                    (331, 375, 2, [330])
                    Tip)
                  (378, 382, 2, [377])
                  (Fork Tip (383, 383, 1, [83]) Tip))
                (384, 384, 1, [579])
                (Fork
                  (Fork Tip (387, 389, 2, [386]) Tip)
                  (392, 392, 1, [391])
                  (Fork Tip (396, 396, 1, [395]) Tip))))
            (402, 402, 1, [401])
            (Fork
              (Fork
                (Fork
                  (Fork
                    (Fork Tip (405, 405, 1, [502]) Tip)
                    (409, 409, 1, [408])
                    Tip)
                  (410, 410, 1, [573])
                  (Fork Tip (414, 414, 1, [544]) Tip))
                (417, 421, 2, [416])
                (Fork
                  (Fork
                    (Fork Tip (424, 424, 1, [423]) Tip)
                    (429, 429, 1, [428])
                    Tip)
                  (432, 432, 1, [431])
                  (Fork Tip (436, 438, 2, [435]) Tip)))
              (441, 441, 1, [440])
              (Fork
                (Fork
                  (Fork
                    (Fork Tip (445, 445, 1, [444]) Tip)
                    (447, 447, 1, [503])
                    Tip)
                  (453, 453, 1, [452])
                  (Fork Tip (454, 454, 1, [452]) Tip))
                (456, 456, 1, [455])
                (Fork
                  (Fork Tip (457, 457, 1, [455]) Tip)
                  (459, 459, 1, [458])
                  (Fork Tip (460, 460, 1, [458]) Tip)))))
          (462, 476, 2, [461])
          (Fork
            (Fork
              (Fork
                (Fork
                  (Fork
                    (Fork Tip (477, 477, 1, [398]) Tip)
                    (479, 495, 2, [478])
                    Tip)
                  (496, 496, 1, [74, 780])
                  (Fork Tip (498, 498, 1, [497]) Tip))
                (499, 499, 1, [497])
                (Fork
                  (Fork
                    (Fork Tip (501, 501, 1, [500]) Tip)
                    (505, 543, 2, [504])
                    Tip)
                  (547, 563, 2, [546])
                  (Fork Tip (572, 572, 1, [571]) Tip)))
              (575, 576, 1, [11390])
              (Fork
                (Fork
                  (Fork
                    (Fork Tip (578, 578, 1, [577]) Tip)
                    (583, 591, 2, [582])
                    Tip)
                  (592, 592, 1, [11375])
                  (Fork Tip (593, 593, 1, [11373]) Tip))
                (594, 594, 1, [11376])
                (Fork
                  (Fork Tip (595, 595, 1, [385]) Tip)
                  (596, 596, 1, [390])
                  (Fork Tip (598, 599, 1, [393]) Tip))))
            (601, 601, 1, [399])
            (Fork
              (Fork
                (Fork
                  (Fork
                    (Fork Tip (603, 603, 1, [400]) Tip)
                    (604, 604, 1, [42923])
                    Tip)
                  (608, 608, 1, [403])
                  (Fork Tip (609, 609, 1, [42924]) Tip))
                (611, 611, 1, [404])
                (Fork
                  (Fork Tip (613, 613, 1, [42893]) Tip)
                  (614, 614, 1, [42922])
                  (Fork Tip (616, 616, 1, [407]) Tip)))
              (617, 617, 1, [406])
              (Fork
                (Fork
                  (Fork
                    (Fork Tip (618, 618, 1, [42926]) Tip)
                    (619, 619, 1, [11362])
                    Tip)
                  (620, 620, 1, [42925])
                  (Fork Tip (623, 623, 1, [412]) Tip))
                (625, 625, 1, [11374])
                (Fork
                  (Fork Tip (626, 626, 1, [413]) Tip)
                  (629, 629, 1, [415])
                  (Fork Tip (637, 637, 1, [11364]) Tip))))))
        (640, 640, 1, [422])
        (Fork
          (Fork
            (Fork
              (Fork
                (Fork
                  (Fork
                    (Fork Tip (642, 642, 1, [42949]) Tip)
                    (643, 643, 1, [425])
                    Tip)
                  (647, 647, 1, [42929])
                  (Fork Tip (648, 648, 1, [430]) Tip))
                (649, 649, 1, [580])
                (Fork
                  (Fork
                    (Fork Tip (650, 651, 1, [433]) Tip)
                    (652, 652, 1, [581])
                    Tip)
                  (658, 658, 1, [439])
                  (Fork Tip (669, 669, 1, [42930]) Tip)))
              (670, 670, 1, [42928])
              (Fork
                (Fork
                  (Fork
                    (Fork Tip (837, 837, 1, [921]) Tip)
                    (881, 883, 2, [880])
                    Tip)
                  (887, 887, 1, [886])
                  (Fork Tip (891, 893, 1, [1021]) Tip))
                (912, 912, 1, [921, 776, 769])
                (Fork
                  (Fork Tip (940, 940, 1, [902]) Tip)
                  (941, 943, 1, [904])
                  (Fork Tip (944, 944, 1, [933, 776, 769]) Tip))))
            (945, 961, 1, [913])
            (Fork
              (Fork
                (Fork
                  (Fork
                    (Fork Tip (962, 962, 1, [931]) Tip)
                    (963, 971, 1, [931])
                    Tip)
                  (972, 972, 1, [908])
                  (Fork Tip (973, 974, 1, [910]) Tip))
                (976, 976, 1, [914])
                (Fork
                  (Fork
                    (Fork Tip (977, 977, 1, [920]) Tip)
                    (981, 981, 1, [934])
                    Tip)
                  (982, 982, 1, [928])
                  (Fork Tip (983, 983, 1, [975]) Tip)))
              (985, 1007, 2, [984])
              (Fork
                (Fork
                  (Fork
                    (Fork Tip (1008, 1008, 1, [922]) Tip)
                    (1009, 1009, 1, [929])
                    Tip)
                  (1010, 1010, 1, [1017])
                  (Fork Tip (1011, 1011, 1, [895]) Tip))
                (1013, 1013, 1, [917])
                (Fork
                  (Fork Tip (1016, 1016, 1, [1015]) Tip)
                  (1019, 1019, 1, [1018])
                  (Fork Tip (1072, 1103, 1, [1040]) Tip)))))
          (1104, 1119, 1, [1024])
          (Fork
            (Fork
              (Fork
                (Fork
                  (Fork
                    (Fork Tip (1121, 1153, 2, [1120]) Tip)
                    (1163, 1215, 2, [1162])
                    Tip)
                  (1218, 1230, 2, [1217])
                  (Fork Tip (1231, 1231, 1, [1216]) Tip))
                (1233, 1327, 2, [1232])
                (Fork
                  (Fork
                    (Fork Tip (1377, 1414, 1, [1329]) Tip)
                    (1415, 1415, 1, [1333, 1362])
                    Tip)
                  (4304, 4346, 1, [7312])
                  (Fork Tip (4349, 4351, 1, [7357]) Tip)))
              (5112, 5117, 1, [5104])
              (Fork
                (Fork
                  (Fork
                    (Fork Tip (7296, 7296, 1, [1042]) Tip)
                    (7297, 7297, 1, [1044])
                    Tip)
                  (7298, 7298, 1, [1054])
                  (Fork Tip (7299, 7300, 1, [1057]) Tip))
                (7301, 7301, 1, [1058])
                (Fork
                  (Fork Tip (7302, 7302, 1, [1066]) Tip)
                  (7303, 7303, 1, [1122])
                  (Fork Tip (7304, 7304, 1, [42570]) Tip))))
            (7545, 7545, 1, [42877])
            (Fork
              (Fork
                (Fork
                  (Fork
                    (Fork Tip (7549, 7549, 1, [11363]) Tip)
                    (7566, 7566, 1, [42950])
                    Tip)
                  (7681, 7829, 2, [7680])
                  (Fork Tip (7830, 7830, 1, [72, 817]) Tip))
                (7831, 7831, 1, [84, 776])
                (Fork
                  (Fork Tip (7832, 7832, 1, [87, 778]) Tip)
                  (7833, 7833, 1, [89, 778])
                  (Fork Tip (7834, 7834, 1, [65, 702]) Tip)))
              (7835, 7835, 1, [7776])
              (Fork
                (Fork
                  (Fork
                    (Fork Tip (7841, 7935, 2, [7840]) Tip)
                    (7936, 7943, 1, [7944])
                    Tip)
                  (7952, 7957, 1, [7960])
                  (Fork Tip (7968, 7975, 1, [7976]) Tip))
                (7984, 7991, 1, [7992])
                (Fork
                  (Fork Tip (8000, 8005, 1, [8008]) Tip)
                  (8016, 8016, 1, [933, 787])
                  (Fork Tip (8017, 8017, 1, [8025]) Tip)))))))
      (8018, 8018, 1, [933, 787, 768])
      (Fork
        (Fork
          (Fork
            (Fork
              (Fork
                (Fork
                  (Fork
                    (Fork Tip (8019, 8019, 1, [8027]) Tip)
                    (8020, 8020, 1, [933, 787, 769])
                    Tip)
                  (8021, 8021, 1, [8029])
                  (Fork Tip (8022, 8022, 1, [933, 787, 834]) Tip))
                (8023, 8023, 1, [8031])
                (Fork
                  (Fork
                    (Fork Tip (8032, 8039, 1, [8040]) Tip)
                    (8048, 8049, 1, [8122])
                    Tip)
                  (8050, 8053, 1, [8136])
                  (Fork Tip (8054, 8055, 1, [8154]) Tip)))
              (8056, 8057, 1, [8184])
              (Fork
                (Fork
                  (Fork
                    (Fork Tip (8058, 8059, 1, [8170]) Tip)
                    (8060, 8061, 1, [8186])
                    Tip)
                  (8064, 8064, 1, [7944, 921])
                  (Fork Tip (8065, 8065, 1, [7945, 921]) Tip))
                (8066, 8066, 1, [7946, 921])
                (Fork
                  (Fork Tip (8067, 8067, 1, [7947, 921]) Tip)
                  (8068, 8068, 1, [7948, 921])
                  (Fork Tip (8069, 8069, 1, [7949, 921]) Tip))))
            (8070, 8070, 1, [7950, 921])
            (Fork
              (Fork
                (Fork
                  (Fork
                    (Fork Tip (8071, 8071, 1, [7951, 921]) Tip)
                    (8072, 8072, 1, [7944, 921])
                    Tip)
                  (8073, 8073, 1, [7945, 921])
                  (Fork Tip (8074, 8074, 1, [7946, 921]) Tip))
                (8075, 8075, 1, [7947, 921])
                (Fork
                  (Fork
                    (Fork Tip (8076, 8076, 1, [7948, 921]) Tip)
                    (8077, 8077, 1, [7949, 921])
                    Tip)
                  (8078, 8078, 1, [7950, 921])
                  (Fork Tip (8079, 8079, 1, [7951, 921]) Tip)))
              (8080, 8080, 1, [7976, 921])
              (Fork
                (Fork
                  (Fork
                    (Fork Tip (8081, 8081, 1, [7977, 921]) Tip)
                    (8082, 8082, 1, [7978, 921])
                    Tip)
                  (8083, 8083, 1, [7979, 921])
                  (Fork Tip (8084, 8084, 1, [7980, 921]) Tip))
                (8085, 8085, 1, [7981, 921])
                (Fork
                  (Fork Tip (8086, 8086, 1, [7982, 921]) Tip)
                  (8087, 8087, 1, [7983, 921])
                  (Fork Tip (8088, 8088, 1, [7976, 921]) Tip)))))
          (8089, 8089, 1, [7977, 921])
          (Fork
            (Fork
              (Fork
                (Fork
                  (Fork
                    (Fork Tip (8090, 8090, 1, [7978, 921]) Tip)
                    (8091, 8091, 1, [7979, 921])
                    Tip)
                  (8092, 8092, 1, [7980, 921])
                  (Fork Tip (8093, 8093, 1, [7981, 921]) Tip))
                (8094, 8094, 1, [7982, 921])
                (Fork
                  (Fork
                    (Fork Tip (8095, 8095, 1, [7983, 921]) Tip)
                    (8096, 8096, 1, [8040, 921])
                    Tip)
                  (8097, 8097, 1, [8041, 921])
                  (Fork Tip (8098, 8098, 1, [8042, 921]) Tip)))
              (8099, 8099, 1, [8043, 921])
              (Fork
                (Fork
                  (Fork
                    (Fork Tip (8100, 8100, 1, [8044, 921]) Tip)
                    (8101, 8101, 1, [8045, 921])
                    Tip)
                  (8102, 8102, 1, [8046, 921])
                  (Fork Tip (8103, 8103, 1, [8047, 921]) Tip))
                (8104, 8104, 1, [8040, 921])
                (Fork
                  (Fork Tip (8105, 8105, 1, [8041, 921]) Tip)
                  (8106, 8106, 1, [8042, 921])
                  (Fork Tip (8107, 8107, 1, [8043, 921]) Tip))))
            (8108, 8108, 1, [8044, 921])
            (Fork
              (Fork
                (Fork
                  (Fork
                    (Fork Tip (8109, 8109, 1, [8045, 921]) Tip)
                    (8110, 8110, 1, [8046, 921])
                    Tip)
                  (8111, 8111, 1, [8047, 921])
                  (Fork Tip (8112, 8113, 1, [8120]) Tip))
                (8114, 8114, 1, [8122, 921])
                (Fork
                  (Fork Tip (8115, 8115, 1, [913, 921]) Tip)
                  (8116, 8116, 1, [902, 921])
                  (Fork Tip (8118, 8118, 1, [913, 834]) Tip)))
              (8119, 8119, 1, [913, 834, 921])
              (Fork
                (Fork
                  (Fork
                    (Fork Tip (8124, 8124, 1, [913, 921]) Tip)
                    (8126, 8126, 1, [921])
                    Tip)
                  (8130, 8130, 1, [8138, 921])
                  (Fork Tip (8131, 8131, 1, [919, 921]) Tip))
                (8132, 8132, 1, [905, 921])
                (Fork
                  (Fork Tip (8134, 8134, 1, [919, 834]) Tip)
                  (8135, 8135, 1, [919, 834, 921])
                  (Fork Tip (8140, 8140, 1, [919, 921]) Tip))))))
        (8144, 8145, 1, [8152])
        (Fork
          (Fork
            (Fork
              (Fork
                (Fork
                  (Fork
                    (Fork Tip (8146, 8146, 1, [921, 776, 768]) Tip)
                    (8147, 8147, 1, [921, 776, 769])
                    Tip)
                  (8150, 8150, 1, [921, 834])
                  (Fork Tip (8151, 8151, 1, [921, 776, 834]) Tip))
                (8160, 8161, 1, [8168])
                (Fork
                  (Fork
                    (Fork Tip (8162, 8162, 1, [933, 776, 768]) Tip)
                    (8163, 8163, 1, [933, 776, 769])
                    Tip)
                  (8164, 8164, 1, [929, 787])
                  (Fork Tip (8165, 8165, 1, [8172]) Tip)))
              (8166, 8166, 1, [933, 834])
              (Fork
                (Fork
                  (Fork
                    (Fork Tip (8167, 8167, 1, [933, 776, 834]) Tip)
                    (8178, 8178, 1, [8186, 921])
                    Tip)
                  (8179, 8179, 1, [937, 921])
                  (Fork Tip (8180, 8180, 1, [911, 921]) Tip))
                (8182, 8182, 1, [937, 834])
                (Fork
                  (Fork Tip (8183, 8183, 1, [937, 834, 921]) Tip)
                  (8188, 8188, 1, [937, 921])
                  (Fork Tip (8526, 8526, 1, [8498]) Tip))))
            (8560, 8575, 1, [8544])
            (Fork
              (Fork
                (Fork
                  (Fork
                    (Fork Tip (8580, 8580, 1, [8579]) Tip)
                    (9424, 9449, 1, [9398])
                    Tip)
                  (11312, 11359, 1, [11264])
                  (Fork Tip (11361, 11361, 1, [11360]) Tip))
                (11365, 11365, 1, [570])
                (Fork
                  (Fork
                    (Fork Tip (11366, 11366, 1, [574]) Tip)
                    (11368, 11372, 2, [11367])
                    Tip)
                  (11379, 11379, 1, [11378])
                  (Fork Tip (11382, 11382, 1, [11381]) Tip)))
              (11393, 11491, 2, [11392])
              (Fork
                (Fork
                  (Fork
                    (Fork Tip (11500, 11502, 2, [11499]) Tip)
                    (11507, 11507, 1, [11506])
                    Tip)
                  (11520, 11557, 1, [4256])
                  (Fork Tip (11559, 11559, 1, [4295]) Tip))
                (11565, 11565, 1, [4301])
                (Fork
                  (Fork Tip (42561, 42605, 2, [42560]) Tip)
                  (42625, 42651, 2, [42624])
                  (Fork Tip (42787, 42799, 2, [42786]) Tip)))))
          (42803, 42863, 2, [42802])
          (Fork
            (Fork
              (Fork
                (Fork
                  (Fork
                    (Fork Tip (42874, 42876, 2, [42873]) Tip)
                    (42879, 42887, 2, [42878])
                    Tip)
                  (42892, 42892, 1, [42891])
                  (Fork Tip (42897, 42899, 2, [42896]) Tip))
                (42900, 42900, 1, [42948])
                (Fork
                  (Fork
                    (Fork Tip (42903, 42921, 2, [42902]) Tip)
                    (42933, 42947, 2, [42932])
                    Tip)
                  (42952, 42954, 2, [42951])
                  (Fork Tip (42961, 42961, 1, [42960]) Tip)))
              (42967, 42969, 2, [42966])
              (Fork
                (Fork
                  (Fork
                    (Fork Tip (42998, 42998, 1, [42997]) Tip)
                    (43859, 43859, 1, [42931])
                    Tip)
                  (43888, 43967, 1, [5024])
                  (Fork Tip (64256, 64256, 1, [70, 70]) Tip))
                (64257, 64257, 1, [70, 73])
                (Fork
                  (Fork Tip (64258, 64258, 1, [70, 76]) Tip)
                  (64259, 64259, 1, [70, 70, 73])
                  (Fork Tip (64260, 64260, 1, [70, 70, 76]) Tip))))
            (64261, 64261, 1, [83, 84])
            (Fork
              (Fork
                (Fork
                  (Fork
                    (Fork Tip (64262, 64262, 1, [83, 84]) Tip)
                    (64275, 64275, 1, [1348, 1350])
                    Tip)
                  (64276, 64276, 1, [1348, 1333])
                  (Fork Tip (64277, 64277, 1, [1348, 1339]) Tip))
                (64278, 64278, 1, [1358, 1350])
                (Fork
                  (Fork Tip (64279, 64279, 1, [1348, 1341]) Tip)
                  (65345, 65370, 1, [65313])
                  (Fork Tip (66600, 66639, 1, [66560]) Tip)))
              (66776, 66811, 1, [66736])
              (Fork
                (Fork
                  (Fork
                    (Fork Tip (66967, 66977, 1, [66928]) Tip)
                    (66979, 66993, 1, [66940])
                    Tip)
                  (66995, 67001, 1, [66956])
                  (Fork Tip (67003, 67004, 1, [66964]) Tip))
                (68800, 68850, 1, [68736])
                (Fork
                  (Fork Tip (71872, 71903, 1, [71840]) Tip)
                  (93792, 93823, 1, [93760])
                  (Fork Tip (125218, 125251, 1, [125184]) Tip))))))))"

fun inorder :: "caseTree \<Rightarrow> caseEntry list" where
  "inorder Tip = []"
| "inorder (Fork l e r) = inorder l @ e # inorder r"

fun lookupTree :: "caseTree \<Rightarrow> nat \<Rightarrow> nat list option" where
  "lookupTree Tip c = None"
| "lookupTree (Fork l (lo, hi, step, ts) r) c =
     (if c < lo then lookupTree l c
      else if hi < c then lookupTree r c
      else if (c - lo) mod step = 0 then Some (map (\<lambda>t. t + (c - lo)) ts) else None)"

text \<open>An arithmetic progression \<open>(first, last, step)\<close> of code points.\<close>

type_synonym prog = "nat \<times> nat \<times> nat"

fun inProg :: "prog \<Rightarrow> nat \<Rightarrow> bool" where
  "inProg (a, b, s) x = (a \<le> x \<and> x \<le> b \<and> (x - a) mod s = 0)"

fun domProg :: "caseEntry \<Rightarrow> prog" where
  "domProg (lo, hi, step, ts) = (lo, hi, step)"

fun imgProgs :: "caseEntry \<Rightarrow> prog list" where
  "imgProgs (lo, hi, step, ts) = map (\<lambda>t. (t, t + (hi - lo), step)) ts"

fun before :: "caseEntry \<Rightarrow> caseEntry \<Rightarrow> bool" where
  "before (lo, hi, step, ts) (lo', hi', step', ts') = (lo \<le> hi \<and> hi < lo' \<and> lo' \<le> hi')"

fun separated :: "caseEntry list \<Rightarrow> bool" where
  "separated (e # e' # es) = (before e e' \<and> separated (e' # es))"
| "separated es = True"

fun progsApart :: "prog \<Rightarrow> prog \<Rightarrow> bool" where
  "progsApart (lo, hi, s) (a, b, t) =
     (hi < a \<or> b < lo \<or> (s = 2 \<and> t = 2 \<and> lo mod 2 \<noteq> a mod 2) \<or> (a = b \<and> (a - lo) mod s \<noteq> 0))"

fun clearTree :: "caseTree \<Rightarrow> prog \<Rightarrow> bool" where
  "clearTree Tip p = True"
| "clearTree (Fork l (lo, hi, step, ts) r) (a, b, t) =
     (if b < lo then clearTree l (a, b, t)
      else if hi < a then clearTree r (a, b, t)
      else progsApart (lo, hi, step) (a, b, t) \<and> clearTree l (a, b, t) \<and> clearTree r (a, b, t))"

fun imagesClear :: "caseTree \<Rightarrow> caseTree \<Rightarrow> bool" where
  "imagesClear whole Tip = True"
| "imagesClear whole (Fork l e r) =
     (imagesClear whole l \<and> list_all (clearTree whole) (imgProgs e) \<and> imagesClear whole r)"

fun imagesScalar :: "caseEntry \<Rightarrow> bool" where
  "imagesScalar (lo, hi, step, ts) =
     list_all (\<lambda>t. t + (hi - lo) < 55296 \<or> (57344 \<le> t \<and> t + (hi - lo) < 1114112)) ts"

section \<open>The case table\<close>

lemma lookupCase_none: "list_all (\<lambda>e. \<not> inProg (domProg e) c) es \<Longrightarrow> lookupCase es c = None"
  by (induction es) auto

lemma lookupCase_some:
  "lookupCase es c = Some ds \<Longrightarrow>
   \<exists>lo hi step ts. (lo, hi, step, ts) \<in> set es \<and> inProg (lo, hi, step) c
      \<and> ds = map (\<lambda>t. t + (c - lo)) ts"
proof (induction es)
  case Nil
  then show ?case by simp
next
  case (Cons e es)
  obtain lo hi step ts where e: "e = (lo, hi, step, ts)"
    by (cases e) auto
  show ?case
  proof (cases "lo \<le> c \<and> c \<le> hi \<and> (c - lo) mod step = 0")
    case True
    with Cons.prems e have "ds = map (\<lambda>t. t + (c - lo)) ts"
      by (simp del: add_diff_assoc add_diff_assoc2)
    with True e show ?thesis
      by (intro exI [of _ lo] exI [of _ hi] exI [of _ step] exI [of _ ts]) simp
  next
    case False
    with Cons.prems e have "lookupCase es c = Some ds" by auto
    from Cons.IH [OF this] obtain lo' hi' step' ts'
      where h: "(lo', hi', step', ts') \<in> set es" "inProg (lo', hi', step') c"
        "ds = map (\<lambda>t. t + (c - lo')) ts'"
      by blast
    show ?thesis
      by (intro exI [of _ lo'] exI [of _ hi'] exI [of _ step'] exI [of _ ts'] conjI)
        (use h in simp_all)
  qed
qed

lemma lookupCase_append:
  "lookupCase (xs @ ys) c = (case lookupCase xs c of Some ds \<Rightarrow> Some ds | None \<Rightarrow> lookupCase ys c)"
  by (induction xs) auto

lemma separated_pairwise: "separated es \<Longrightarrow> sorted_wrt before es"
proof (induction es rule: separated.induct)
  case (1 e e' es)
  then have sep: "before e e'" "sorted_wrt before (e' # es)"
    by simp_all
  have "before e y" if "y \<in> set es" for y
  proof -
    from sep(2) that have "before e' y" by simp
    with sep(1) show ?thesis
      by (cases e; cases e'; cases y) auto
  qed
  with sep show ?case by auto
qed simp_all

lemma before_left: "before x e \<Longrightarrow> inProg (domProg e) c \<Longrightarrow> \<not> inProg (domProg x) c"
  by (cases x; cases e) auto

lemma before_right: "before e y \<Longrightarrow> inProg (domProg e) c \<Longrightarrow> \<not> inProg (domProg y) c"
  by (cases y; cases e) auto

lemma lookupTree_inorder:
  "sorted_wrt before (inorder t) \<Longrightarrow> lookupTree t c = lookupCase (inorder t) c"
proof (induction t)
  case Tip
  show ?case by simp
next
  case (Fork l e r)
  obtain lo hi step ts where e: "e = (lo, hi, step, ts)"
    by (cases e) auto
  from Fork.prems have sl: "sorted_wrt before (inorder l)" and sr: "sorted_wrt before (inorder r)"
    and le: "\<forall>x\<in>set (inorder l). before x e" and er: "\<forall>y\<in>set (inorder r). before e y"
    by (auto simp add: sorted_wrt_append)
  have il: "lookupTree l c = lookupCase (inorder l) c" and ir: "lookupTree r c = lookupCase (inorder r) c"
    using Fork.IH sl sr by simp_all
  show ?case
  proof (cases "c < lo")
    case True
    have "list_all (\<lambda>y. \<not> inProg (domProg y) c) (inorder r)"
      unfolding list_all_iff
    proof
      fix y assume "y \<in> set (inorder r)"
      with er have "before e y" by simp
      with True e show "\<not> inProg (domProg y) c" by (cases y) auto
    qed
    then have "lookupCase (inorder r) c = None"
      by (rule lookupCase_none)
    with True e il show ?thesis
      by (simp add: lookupCase_append split: option.split)
  next
    case False
    have left: "lookupCase (inorder l) c = None"
    proof (rule lookupCase_none, unfold list_all_iff, rule ballI)
      fix x assume "x \<in> set (inorder l)"
      with le have "before x e" by simp
      with False e show "\<not> inProg (domProg x) c" by (cases x) auto
    qed
    show ?thesis
    proof (cases "hi < c")
      case True
      with False e ir left show ?thesis
        by (simp add: lookupCase_append)
    next
      case inside: False
      have "lookupCase (inorder r) c = None"
      proof (rule lookupCase_none, unfold list_all_iff, rule ballI)
        fix y assume "y \<in> set (inorder r)"
        with er have "before e y" by simp
        with inside e show "\<not> inProg (domProg y) c" by (cases y) auto
      qed
      with False inside e left show ?thesis
        by (simp add: lookupCase_append)
    qed
  qed
qed

lemma tree_inorder: "inorder UPPER_TREE = UPPER_TABLE"
  by (simp add: UPPER_TREE_def UPPER_TABLE_def)

lemma table_separated: "separated UPPER_TABLE"
  by (simp add: UPPER_TABLE_def)

lemma table_pairwise: "sorted_wrt before (inorder UPPER_TREE)"
  unfolding tree_inorder using table_separated by (rule separated_pairwise)

lemma upperPoint_tree:
  "upperPoint c = (case lookupTree UPPER_TREE c of Some ds \<Rightarrow> ds | None \<Rightarrow> [c])"
  by (simp add: upperPoint_def lookupTree_inorder [OF table_pairwise] tree_inorder)

lemma progsApart_sound: "progsApart d p \<Longrightarrow> inProg d x \<Longrightarrow> \<not> inProg p x"
proof (cases d; cases p)
  fix lo hi s a b t
  assume d: "d = (lo, hi, s)" and p: "p = (a, b, t)"
  assume ap: "progsApart d p" and ind: "inProg d x"
  show "\<not> inProg p x"
  proof
    assume inp: "inProg p x"
    from ind d have x1: "lo \<le> x" "x \<le> hi" "(x - lo) mod s = 0" by simp_all
    from inp p have x2: "a \<le> x" "x \<le> b" "(x - a) mod t = 0" by simp_all
    from ap d p consider "hi < a" | "b < lo" | "s = 2 \<and> t = 2 \<and> lo mod 2 \<noteq> a mod 2"
      | "a = b \<and> (a - lo) mod s \<noteq> 0"
      by auto
    then show False
    proof cases
      case 1 with x1 x2 show False by simp
    next
      case 2 with x1 x2 show False by simp
    next
      case 3
      from x1 3 have "x mod 2 = lo mod 2"
        by (metis le_add_diff_inverse2 mod_add_left_eq add_0)
      moreover from x2 3 have "x mod 2 = a mod 2"
        by (metis le_add_diff_inverse2 mod_add_left_eq add_0)
      ultimately show False using 3 by simp
    next
      case 4
      with x2 have "x = a" by simp
      with x1 4 show False by auto
    qed
  qed
qed

lemma clearTree_sound:
  "sorted_wrt before (inorder t) \<Longrightarrow> clearTree t p \<Longrightarrow>
   list_all (\<lambda>e. progsApart (domProg e) p) (inorder t)"
proof (induction t)
  case Tip
  show ?case by simp
next
  case (Fork l e r)
  obtain lo hi step ts where e: "e = (lo, hi, step, ts)"
    by (cases e) auto
  obtain a b s where p: "p = (a, b, s)"
    by (cases p) auto
  from Fork.prems(1) have sl: "sorted_wrt before (inorder l)" and sr: "sorted_wrt before (inorder r)"
    and le: "\<forall>x\<in>set (inorder l). before x e" and er: "\<forall>y\<in>set (inorder r). before e y"
    by (auto simp add: sorted_wrt_append)
  have lefts: "list_all (\<lambda>x. progsApart (domProg x) p) (inorder l)" if "hi < a"
    unfolding list_all_iff
  proof
    fix x assume "x \<in> set (inorder l)"
    with le have "before x e" by simp
    with that e p show "progsApart (domProg x) p" by (cases x) auto
  qed
  have rights: "list_all (\<lambda>y. progsApart (domProg y) p) (inorder r)" if "b < lo"
    unfolding list_all_iff
  proof
    fix y assume "y \<in> set (inorder r)"
    with er have "before e y" by simp
    with that e p show "progsApart (domProg y) p" by (cases y) auto
  qed
  show ?case
  proof (cases "b < lo")
    case True
    with Fork.prems(2) e p have "clearTree l p" by simp
    with Fork.IH(1) sl have "list_all (\<lambda>x. progsApart (domProg x) p) (inorder l)" by simp
    with True rights e p show ?thesis by simp
  next
    case False
    show ?thesis
    proof (cases "hi < a")
      case True
      with False Fork.prems(2) e p have "clearTree r p" by simp
      with Fork.IH(2) sr have "list_all (\<lambda>y. progsApart (domProg y) p) (inorder r)" by simp
      with True lefts e p show ?thesis by simp
    next
      case inside: False
      with False Fork.prems(2) e p have "progsApart (lo, hi, step) (a, b, s)"
        "clearTree l p" "clearTree r p" by simp_all
      with Fork.IH sl sr e p show ?thesis by simp
    qed
  qed
qed

lemma imagesClear_sound:
  "imagesClear w t \<Longrightarrow> list_all (\<lambda>e. list_all (clearTree w) (imgProgs e)) (inorder t)"
  by (induction t) simp_all

lemma tree_images_clear: "imagesClear UPPER_TREE UPPER_TREE"
  by (simp add: UPPER_TREE_def)

lemma table_images_scalar: "list_all imagesScalar UPPER_TABLE"
  by (simp add: UPPER_TABLE_def)

lemma table_above_96: "list_all (\<lambda>e. 97 \<le> fst e) UPPER_TABLE"
  by (simp add: UPPER_TABLE_def)


text \<open>The upper case of a code point has no upper case of its own.\<close>

lemma table_clear:
  "list_all (\<lambda>e. list_all (\<lambda>p. list_all (\<lambda>e'. progsApart (domProg e') p) UPPER_TABLE)
      (imgProgs e)) UPPER_TABLE"
proof -
  have "list_all (\<lambda>e. list_all (clearTree UPPER_TREE) (imgProgs e)) UPPER_TABLE"
    using imagesClear_sound [OF tree_images_clear] by (simp add: tree_inorder)
  moreover have "list_all (\<lambda>e'. progsApart (domProg e') p) UPPER_TABLE"
    if "clearTree UPPER_TREE p" for p
    using clearTree_sound [OF table_pairwise that] by (simp add: tree_inorder)
  ultimately show ?thesis
    by (simp add: list_all_iff)
qed

lemma upperPoint_none: "lookupCase UPPER_TABLE c = None \<Longrightarrow> upperPoint c = [c]"
  by (simp add: upperPoint_def)

lemma upperPoint_images_fixed: "list_all (\<lambda>d. upperPoint d = [d]) (upperPoint c)"
proof (cases "lookupCase UPPER_TABLE c")
  case None
  then show ?thesis
    by (simp add: upperPoint_none)
next
  case (Some ds)
  then obtain lo hi step ts
    where e: "(lo, hi, step, ts) \<in> set UPPER_TABLE" and c: "inProg (lo, hi, step) c"
      and ds: "ds = map (\<lambda>t. t + (c - lo)) ts"
    using lookupCase_some by blast
  have "upperPoint d = [d]" if "d \<in> set ds" for d
  proof -
    from that ds obtain t where t: "t \<in> set ts" and d: "d = t + (c - lo)"
      by auto
    define p :: prog where "p = (t, t + (hi - lo), step)"
    from t have pe: "p \<in> set (imgProgs (lo, hi, step, ts))"
      by (simp add: p_def)
    from c have c': "lo \<le> c" "c \<le> hi" "(c - lo) mod step = 0"
      by simp_all
    have "t \<le> d" "d \<le> t + (hi - lo)" "d - t = c - lo"
      using c' d by linarith+
    with c' have pd: "inProg p d"
      by (simp add: p_def)
    from table_clear e pe have "list_all (\<lambda>e'. progsApart (domProg e') p) UPPER_TABLE"
      unfolding list_all_iff by blast
    then have "list_all (\<lambda>e'. \<not> inProg (domProg e') d) UPPER_TABLE"
      unfolding list_all_iff using progsApart_sound pd by blast
    then show ?thesis
      by (intro upperPoint_none lookupCase_none)
  qed
  with Some show ?thesis
    by (simp add: upperPoint_def list_all_iff)
qed

lemma upperPoint_images_scalar:
  "isScalarValue c \<Longrightarrow> list_all isScalarValue (upperPoint c)"
proof (cases "lookupCase UPPER_TABLE c")
  case None
  assume "isScalarValue c"
  with None show ?thesis
    by (simp add: upperPoint_none)
next
  case (Some ds)
  then obtain lo hi step ts
    where e: "(lo, hi, step, ts) \<in> set UPPER_TABLE" and c: "inProg (lo, hi, step) c"
      and ds: "ds = map (\<lambda>t. t + (c - lo)) ts"
    using lookupCase_some by blast
  from table_images_scalar e have sc: "imagesScalar (lo, hi, step, ts)"
    unfolding list_all_iff by blast
  have "isScalarValue d" if "d \<in> set ds" for d
  proof -
    from that ds obtain t where t: "t \<in> set ts" and d: "d = t + (c - lo)"
      by auto
    from sc t have "t + (hi - lo) < 55296 \<or> (57344 \<le> t \<and> t + (hi - lo) < 1114112)"
      by (simp add: list_all_iff)
    moreover from c have "lo \<le> c" "c \<le> hi"
      by simp_all
    with d have "t \<le> d" "d \<le> t + (hi - lo)"
      by linarith+
    ultimately show ?thesis
      unfolding isScalarValue_def isHighSurrogate_def isLowSurrogate_def by linarith
  qed
  with Some show ?thesis
    by (simp add: upperPoint_def list_all_iff)
qed

lemma upperPoint_below_97: "c < 97 \<Longrightarrow> upperPoint c = [c]"
proof (intro upperPoint_none lookupCase_none)
  assume c: "c < 97"
  show "list_all (\<lambda>e. \<not> inProg (domProg e) c) UPPER_TABLE"
    unfolding list_all_iff
  proof
    fix e assume "e \<in> set UPPER_TABLE"
    with table_above_96 have "97 \<le> fst e"
      by (simp add: list_all_iff)
    with c show "\<not> inProg (domProg e) c"
      by (cases e) auto
  qed
qed

section \<open>Properties of the string primitives\<close>

lemma white_range: "isWhiteSpace c \<Longrightarrow> c \<le> 32 \<or> c = 160 \<or> 5760 \<le> c"
  by (auto simp add: isWhiteSpace_def)

lemma white_not_surrogate: "isWhiteSpace c \<Longrightarrow> \<not> isHighSurrogate c \<and> \<not> isLowSurrogate c"
  by (auto simp add: isWhiteSpace_def isHighSurrogate_def isLowSurrogate_def)

lemma white_scalar: "isWhiteSpace c \<Longrightarrow> c < 65536"
  by (auto simp add: isWhiteSpace_def)

lemma codePoints_Cons: "\<not> isHighSurrogate h \<Longrightarrow> codePoints (h # t) = h # codePoints t"
  by (cases t) simp_all

lemma codePoints_plain: "list_all (\<lambda>c. \<not> isHighSurrogate c) s \<Longrightarrow> codePoints s = s"
  by (induction s) (simp_all add: codePoints_Cons)

lemma codePoints_after_plain:
  "list_all (\<lambda>c. \<not> isHighSurrogate c) w \<Longrightarrow> codePoints (w @ u) = w @ codePoints u"
  by (induction w) (simp_all add: codePoints_Cons)

lemma codePoints_before_plain:
  "list_all (\<lambda>c. \<not> isHighSurrogate c \<and> \<not> isLowSurrogate c) w \<Longrightarrow>
   codePoints (u @ w) = codePoints u @ w"
proof (induction u rule: codePoints.induct)
  case 1
  then have "list_all (\<lambda>c. \<not> isHighSurrogate c) w"
    by (simp add: list_all_iff)
  then show ?case
    by (simp add: codePoints_plain)
next
  case (2 c)
  then have plain: "list_all (\<lambda>c. \<not> isHighSurrogate c) w"
    by (simp add: list_all_iff)
  show ?case
  proof (cases w)
    case Nil
    then show ?thesis by simp
  next
    case (Cons x w')
    with 2 have "\<not> isLowSurrogate x" by simp
    with Cons plain show ?thesis
      using codePoints_plain [of w] by simp
  qed
next
  case (3 h l rest)
  then show ?case by simp
qed

lemma trim_decomposition:
  "\<exists>w1 w2. list_all isWhiteSpace w1 \<and> list_all isWhiteSpace w2 \<and> s = w1 @ trim s @ w2"
proof -
  define x where "x = dropWhile isWhiteSpace s"
  define w1 where "w1 = takeWhile isWhiteSpace s"
  define w2 where "w2 = rev (takeWhile isWhiteSpace (rev x))"
  have "trim s @ w2
      = rev (takeWhile isWhiteSpace (rev x) @ dropWhile isWhiteSpace (rev x))"
    by (simp only: trim_def w2_def x_def rev_append)
  also have "\<dots> = rev (rev x)"
    by (simp only: takeWhile_dropWhile_id)
  finally have "x = trim s @ w2"
    by simp
  moreover have "s = w1 @ x"
    by (simp add: w1_def x_def)
  moreover have "list_all isWhiteSpace w1"
    unfolding w1_def list_all_iff by (auto dest: set_takeWhileD)
  moreover have "list_all isWhiteSpace w2"
    unfolding w2_def list_all_iff by (auto dest: set_takeWhileD)
  ultimately show ?thesis by blast
qed

lemma codePoints_trim:
  "list_all isScalarValue (codePoints s) \<Longrightarrow> list_all isScalarValue (codePoints (trim s))"
proof -
  assume h: "list_all isScalarValue (codePoints s)"
  obtain w1 w2 where w1: "list_all isWhiteSpace w1" and w2: "list_all isWhiteSpace w2"
    and s: "s = w1 @ trim s @ w2"
    using trim_decomposition by blast
  from w1 have p1: "list_all (\<lambda>c. \<not> isHighSurrogate c) w1"
    unfolding list_all_iff using white_not_surrogate by blast
  from w2 have p2: "list_all (\<lambda>c. \<not> isHighSurrogate c \<and> \<not> isLowSurrogate c) w2"
    unfolding list_all_iff using white_not_surrogate by blast
  have "codePoints (w1 @ trim s @ w2) = w1 @ codePoints (trim s) @ w2"
    by (simp add: codePoints_after_plain [OF p1] codePoints_before_plain [OF p2])
  with s have "codePoints s = w1 @ codePoints (trim s) @ w2"
    by simp
  with h show ?thesis
    by simp
qed

lemma codeUnits_decoded:
  "isScalarValue p \<Longrightarrow> codePoints (codeUnits p @ u) = p # codePoints u"
proof (cases "p < 65536")
  case True
  assume "isScalarValue p"
  with True show ?thesis
    by (simp add: codeUnits_def isScalarValue_def codePoints_Cons)
next
  case False
  assume sc: "isScalarValue p"
  define q where "q = p - 65536"
  from False sc have q: "q < 1048576" and p: "p = 65536 + q"
    unfolding q_def isScalarValue_def by linarith+
  have "q div 1024 < 1024"
    using q by simp
  then have hi: "isHighSurrogate (55296 + q div 1024)"
    by (simp add: isHighSurrogate_def)
  have "q mod 1024 < 1024"
    by simp
  then have lo: "isLowSurrogate (56320 + q mod 1024)"
    by (simp add: isLowSurrogate_def)
  have "q div 1024 * 1024 + q mod 1024 = q"
    by simp
  with False hi lo show ?thesis
    by (simp add: codeUnits_def p q_def [symmetric])
qed

lemma codePoints_codeUnits:
  "list_all isScalarValue ps \<Longrightarrow> codePoints (concat (map codeUnits ps)) = ps"
  by (induction ps) (simp_all add: codeUnits_decoded)

lemma removeWhiteSpace_append:
  "removeWhiteSpace (xs @ ys) = removeWhiteSpace xs @ removeWhiteSpace ys"
  by (simp add: removeWhiteSpace_def)

lemma removeWhiteSpace_codeUnits:
  "isScalarValue p \<Longrightarrow>
   removeWhiteSpace (codeUnits p) = (if isWhiteSpace p then [] else codeUnits p)"
proof (cases "p < 65536")
  case True
  then show ?thesis
    by (simp add: codeUnits_def removeWhiteSpace_def)
next
  case False
  assume sc: "isScalarValue p"
  define q where "q = p - 65536"
  from False sc have q: "q < 1048576"
    unfolding q_def isScalarValue_def by linarith
  then have "q div 1024 < 1024" "q mod 1024 < 1024"
    by simp_all
  then have "isHighSurrogate (55296 + q div 1024)" "isLowSurrogate (56320 + q mod 1024)"
    by (simp_all add: isHighSurrogate_def isLowSurrogate_def)
  then have "\<not> isWhiteSpace (55296 + q div 1024)" "\<not> isWhiteSpace (56320 + q mod 1024)"
    using white_not_surrogate by blast+
  moreover from False have "\<not> isWhiteSpace p"
    using white_scalar by force
  ultimately show ?thesis
    using False by (simp add: codeUnits_def removeWhiteSpace_def q_def)
qed

lemma removeWhiteSpace_encoded:
  "list_all isScalarValue ps \<Longrightarrow>
   removeWhiteSpace (concat (map codeUnits ps))
     = concat (map codeUnits (filter (\<lambda>p. \<not> isWhiteSpace p) ps))"
proof (induction ps)
  case Nil
  show ?case
    by (simp add: removeWhiteSpace_def)
next
  case (Cons p ps)
  then show ?case
    by (simp add: removeWhiteSpace_append removeWhiteSpace_codeUnits)
qed

lemma concat_map_fixed: "list_all (\<lambda>d. f d = [d]) xs \<Longrightarrow> concat (map f xs) = xs"
  by (induction xs) simp_all

lemma normalize_clean: "normalize s = removeWhiteSpace (toUpperCase (trim s))"
  by (simp add: normalize_def trim_def toUpperCase_def removeWhiteSpace_def)

lemma removeWhiteSpace_clean: "list_all (\<lambda>d. \<not> isWhiteSpace d) s \<Longrightarrow> removeWhiteSpace s = s"
  by (induction s) (simp_all add: removeWhiteSpace_def)

lemma removeWhiteSpace_none: "list_all (\<lambda>d. \<not> isWhiteSpace d) (removeWhiteSpace s)"
  by (simp add: removeWhiteSpace_def list_all_iff)

lemma dropWhile_none: "list_all (\<lambda>d. \<not> P d) s \<Longrightarrow> dropWhile P s = s"
  by (cases s) simp_all

lemma trim_clean: "list_all (\<lambda>d. \<not> isWhiteSpace d) s \<Longrightarrow> trim s = s"
proof -
  assume h: "list_all (\<lambda>d. \<not> isWhiteSpace d) s"
  then have "list_all (\<lambda>d. \<not> isWhiteSpace d) (rev s)"
    by (simp add: list_all_iff)
  then show ?thesis
    using h by (simp add: trim_def dropWhile_none)
qed

text \<open>
  On a string without unpaired surrogates a second normalization changes nothing: the
  first leaves the code units of upper-case code points, and no white space.
\<close>

lemma normalize_well_formed:
  assumes "list_all isScalarValue (codePoints s)"
  shows "normalize (normalize s) = normalize s"
proof -
  define us where "us = concat (map upperPoint (codePoints (trim s)))"
  define vs where "vs = filter (\<lambda>p. \<not> isWhiteSpace p) us"
  have ps: "list_all isScalarValue (codePoints (trim s))"
    using assms by (rule codePoints_trim)
  have "isScalarValue x" if "x \<in> set us" for x
  proof -
    from that obtain p where p: "p \<in> set (codePoints (trim s))" and x: "x \<in> set (upperPoint p)"
      by (auto simp add: us_def)
    from ps p have "isScalarValue p"
      by (simp add: list_all_iff)
    then have "list_all isScalarValue (upperPoint p)"
      by (rule upperPoint_images_scalar)
    with x show ?thesis
      by (simp add: list_all_iff)
  qed
  then have us_scalar: "list_all isScalarValue us"
    by (simp add: list_all_iff)
  have us_fixed: "list_all (\<lambda>d. upperPoint d = [d]) us"
    unfolding us_def using upperPoint_images_fixed by (auto simp add: list_all_iff)
  have vs_scalar: "list_all isScalarValue vs" and vs_fixed: "list_all (\<lambda>d. upperPoint d = [d]) vs"
    using us_scalar us_fixed by (simp_all add: vs_def list_all_iff)
  have n: "normalize s = concat (map codeUnits vs)"
    by (simp add: normalize_clean toUpperCase_def us_def [symmetric] vs_def
        removeWhiteSpace_encoded [OF us_scalar])
  have clean: "list_all (\<lambda>d. \<not> isWhiteSpace d) (normalize s)"
    unfolding normalize_clean by (rule removeWhiteSpace_none)
  have "toUpperCase (normalize s) = normalize s"
    by (simp add: n toUpperCase_def codePoints_codeUnits [OF vs_scalar]
        concat_map_fixed [OF vs_fixed])
  then have "removeWhiteSpace (toUpperCase (trim (normalize s))) = normalize s"
    using clean by (simp add: trim_clean removeWhiteSpace_clean)
  then show ?thesis
    by (simp add: normalize_clean [of "normalize s"])
qed

section \<open>What is left of a variant once its format has matched\<close>

lemma length13_explicit:
  "length n = 13 \<Longrightarrow> \<exists>a b c d e f g h i j k l m. n = [a, b, c, d, e, f, g, h, i, j, k, l, m]"
  by (simp add: eval_nat_numeral length_Suc_conv) blast

lemma length12_explicit:
  "length n = 12 \<Longrightarrow> \<exists>a b c d e f g h i j k l. n = [a, b, c, d, e, f, g, h, i, j, k, l]"
  by (simp add: eval_nat_numeral length_Suc_conv) blast

lemma VALID_CHARS_upt: "VALID_CHARS = [65..<79] @ [209] @ [79..<91] @ [48..<58] @ [38]"
  by (simp add: VALID_CHARS_def js_def)

lemma member_VALID_CHARS: "(c \<in> set VALID_CHARS) = (isLetra c \<or> isDigit c)"
  unfolding VALID_CHARS_upt isLetra_def isDigit_def
  by (simp only: set_append set_upt Un_iff atLeastLessThan_iff list.set insert_iff empty_iff) arith

lemma letters_ok: "text \<noteq> [] \<Longrightarrow> list_all isLetra text \<Longrightarrow> validateLetters text f r = r"
  by (simp add: validateLetters_def)

lemma chars_ok:
  "list_all (\<lambda>c. isLetra c \<or> isDigit c) cs \<Longrightarrow> validateCharactersFrom i cs r = r"
  by (induction cs arbitrary: i) (simp_all add: member_VALID_CHARS)

lemma isAlnum_valid: "isAlnum c \<Longrightarrow> isLetra c \<or> isDigit c"
  by (auto simp add: isAlnum_def isLetra_def isDigit_def)

lemma fisica_regex_explicit:
  "RFC_FISICA_REGEX [a, b, c, d, e, f, g, h, i, j, k, l, m] =
     ((isLetra a \<and> isLetra b \<and> isLetra c \<and> isLetra d) \<and>
      (isDigit e \<and> isDigit f \<and> isDigit g \<and> isDigit h \<and> isDigit i \<and> isDigit j) \<and>
      (isAlnum k \<and> isAlnum l \<and> isAlnum m))"
  by (simp add: RFC_FISICA_REGEX_def)

lemma moral_regex_explicit:
  "RFC_MORAL_REGEX [a, b, c, e, f, g, h, i, j, k, l, m] =
     ((isLetra a \<and> isLetra b \<and> isLetra c) \<and>
      (isDigit e \<and> isDigit f \<and> isDigit g \<and> isDigit h \<and> isDigit i \<and> isDigit j) \<and>
      (isAlnum k \<and> isAlnum l \<and> isAlnum m))"
  by (simp add: RFC_MORAL_REGEX_def)

lemma fisica_regex_length: "RFC_FISICA_REGEX n \<Longrightarrow> length n = 13"
  by (auto simp add: RFC_FISICA_REGEX_def)

lemma moral_regex_length: "RFC_MORAL_REGEX n \<Longrightarrow> length n = 12"
  by (auto simp add: RFC_MORAL_REGEX_def)

lemma fecha_nacimiento_digits:
  "matchFields [(isDigit, 6)] fecha \<Longrightarrow>
   validateFechaNacimiento y fecha r =
     r\<lparr>errors := errors r
         @ (if parseInt10 (substring fecha 2 4) < 1 \<or> parseInt10 (substring fecha 2 4) > 12
            then [MesNacimientoInvalido] else [])
         @ (if parseInt10 (substring fecha 4 6) < 1 \<or> parseInt10 (substring fecha 4 6) > 31
            then [DiaNacimientoInvalido] else [])
         @ (if parseInt10 (substring fecha 0 2) > jsRem y 100 + 10
            then [AnioNacimientoInvalido] else [])\<rparr>"
  by (simp add: validateFechaNacimiento_def push_def Let_def del: matchFields.simps)

lemma fecha_constitucion_digits:
  "matchFields [(isDigit, 6)] fecha \<Longrightarrow>
   validateFechaConstitucion fecha r =
     r\<lparr>errors := errors r
         @ (if parseInt10 (substring fecha 2 4) < 1 \<or> parseInt10 (substring fecha 2 4) > 12
            then [MesConstitucionInvalido] else [])
         @ (if parseInt10 (substring fecha 4 6) < 1 \<or> parseInt10 (substring fecha 4 6) > 31
            then [DiaConstitucionInvalido] else [])\<rparr>"
  by (simp add: validateFechaConstitucion_def push_def Let_def del: matchFields.simps)

text \<open>
  Once the overall format has matched, the letter checks, the date format check, the
  homoclave check and the character scan cannot fail: what is left is the date ranges
  and the forbidden words.
\<close>

lemma fisica_after_regex:
  assumes "RFC_FISICA_REGEX n"
  shows "validatePersonaFisica y n r =
     (let fecha = substring n 4 10;
          es = (if parseInt10 (substring fecha 2 4) < 1 \<or> parseInt10 (substring fecha 2 4) > 12
                then [MesNacimientoInvalido] else [])
             @ (if parseInt10 (substring fecha 4 6) < 1 \<or> parseInt10 (substring fecha 4 6) > 31
                then [DiaNacimientoInvalido] else [])
             @ (if parseInt10 (substring fecha 0 2) > jsRem y 100 + 10
                then [AnioNacimientoInvalido] else [])
             @ (if substring n 0 4 \<in> set FORBIDDEN_WORDS
                then [InicialesProhibidas (substring n 0 4)] else [])
      in r\<lparr>errors := errors r @ es, isValid := (errors r @ es = [])\<rparr>)"
proof -
  obtain a b c d e f g h i j k l m
    where n: "n = [a, b, c, d, e, f, g, h, i, j, k, l, m]"
    using length13_explicit [OF fisica_regex_length [OF assms]] by (elim exE) (rule that)
  from assms have cls: "isLetra a" "isLetra b" "isLetra c" "isLetra d"
      "isDigit e" "isDigit f" "isDigit g" "isDigit h" "isDigit i" "isDigit j"
      "isAlnum k" "isAlnum l" "isAlnum m"
    by (simp_all add: n fisica_regex_explicit)
  have scan: "validateCharacters n x = x" for x
    unfolding validateCharacters_def using cls
    by (intro chars_ok) (simp add: n isAlnum_valid)
  have l1: "validateLetters (substring n 0 2) ApellidoPaterno x = x" for x
    using cls by (simp add: n substring_def letters_ok)
  have l2: "validateLetters (substring n 2 3) ApellidoMaterno x = x" for x
    using cls by (simp add: n substring_def letters_ok)
  have l3: "validateLetters (substring n 3 4) Nombre x = x" for x
    using cls by (simp add: n substring_def letters_ok)
  have hc: "validateHomoclave (substring n 10 13) x = x" for x
    using cls by (simp add: n substring_def validateHomoclave_def)
  have dt: "matchFields [(isDigit, 6)] (substring n 4 10)"
    using cls by (simp add: n substring_def)
  show ?thesis
    using assms
    by (simp add: validatePersonaFisica_def l1 l2 l3 hc scan fecha_nacimiento_digits [OF dt]
        push_def Let_def)
qed

lemma moral_after_regex:
  assumes "RFC_MORAL_REGEX n"
  shows "validatePersonaMoral n r =
     (let fecha = substring n 3 9;
          es = (if parseInt10 (substring fecha 2 4) < 1 \<or> parseInt10 (substring fecha 2 4) > 12
                then [MesConstitucionInvalido] else [])
             @ (if parseInt10 (substring fecha 4 6) < 1 \<or> parseInt10 (substring fecha 4 6) > 31
                then [DiaConstitucionInvalido] else [])
             @ (if substring n 0 3 \<in> set FORBIDDEN_WORDS
                then [InicialesProhibidas (substring n 0 3)] else [])
      in r\<lparr>errors := errors r @ es, isValid := (errors r @ es = [])\<rparr>)"
proof -
  obtain a b c e f g h i j k l m
    where n: "n = [a, b, c, e, f, g, h, i, j, k, l, m]"
    using length12_explicit [OF moral_regex_length [OF assms]] by (elim exE) (rule that)
  from assms have cls: "isLetra a" "isLetra b" "isLetra c"
      "isDigit e" "isDigit f" "isDigit g" "isDigit h" "isDigit i" "isDigit j"
      "isAlnum k" "isAlnum l" "isAlnum m"
    by (simp_all add: n moral_regex_explicit)
  have scan: "validateCharacters n x = x" for x
    unfolding validateCharacters_def using cls
    by (intro chars_ok) (simp add: n isAlnum_valid)
  have l1: "validateLetters (substring n 0 3) RazonSocial x = x" for x
    using cls by (simp add: n substring_def letters_ok)
  have hc: "validateHomoclave (substring n 9 12) x = x" for x
    using cls by (simp add: n substring_def validateHomoclave_def)
  have dt: "matchFields [(isDigit, 6)] (substring n 3 9)"
    using cls by (simp add: n substring_def)
  show ?thesis
    using assms
    by (simp add: validatePersonaMoral_def l1 hc scan fecha_constitucion_digits [OF dt]
        push_def Let_def)
qed

section \<open>The entry point, case by case\<close>

lemma validate_unfold:
  "validate y s =
     (if s = [] then \<lparr>isValid = False, tipoPersona = None, length_rfc = 0, format = [],
                      errors = [RfcRequerido]\<rparr>
      else if length (normalize s) \<noteq> 12 \<and> length (normalize s) \<noteq> 13
      then \<lparr>isValid = False, tipoPersona = None, length_rfc = length (normalize s),
            format = normalize s, errors = [LongitudInvalida]\<rparr>
      else if length (normalize s) = 13
      then validatePersonaFisica y (normalize s)
             \<lparr>isValid = False, tipoPersona = Some FISICA, length_rfc = 13,
              format = normalize s, errors = []\<rparr>
      else validatePersonaMoral (normalize s)
             \<lparr>isValid = False, tipoPersona = Some MORAL, length_rfc = 12,
              format = normalize s, errors = []\<rparr>)"
  by (simp add: validate_def normalize_def push_def Let_def)

lemma normalize_plain:
  "list_all (\<lambda>c. 33 \<le> c \<and> c \<le> 96) s \<Longrightarrow> normalize s = s"
proof -
  assume h: "list_all (\<lambda>c. 33 \<le> c \<and> c \<le> 96) s"
  have nw: "list_all (\<lambda>d. \<not> isWhiteSpace d) s"
    using h white_range by (induction s) force+
  have "list_all (\<lambda>c. \<not> isHighSurrogate c) s"
    using h by (induction s) (simp_all add: isHighSurrogate_def)
  then have "codePoints s = s"
    by (rule codePoints_plain)
  moreover have "concat (map codeUnits (concat (map upperPoint s))) = s"
    using h by (induction s) (simp_all add: upperPoint_below_97 codeUnits_def)
  ultimately have "toUpperCase s = s"
    by (simp add: toUpperCase_def)
  then show ?thesis
    using nw by (simp add: normalize_clean trim_clean removeWhiteSpace_clean)
qed

lemma fisica_no_match:
  "\<not> RFC_FISICA_REGEX n \<Longrightarrow> validatePersonaFisica y n r = push FormatoFisicaInvalido r"
  by (simp add: validatePersonaFisica_def)

lemma moral_no_match:
  "\<not> RFC_MORAL_REGEX n \<Longrightarrow> validatePersonaMoral n r = push FormatoMoralInvalido r"
  by (simp add: validatePersonaMoral_def)

lemma fisica_tipo: "tipoPersona (validatePersonaFisica y n r) = tipoPersona r"
  by (cases "RFC_FISICA_REGEX n") (simp_all add: fisica_after_regex fisica_no_match Let_def push_def)

lemma moral_tipo: "tipoPersona (validatePersonaMoral n r) = tipoPersona r"
  by (cases "RFC_MORAL_REGEX n") (simp_all add: moral_after_regex moral_no_match Let_def push_def)

lemma fisica_valid_iff:
  "\<not> isValid r \<Longrightarrow>
   isValid (validatePersonaFisica y n r) = (errors (validatePersonaFisica y n r) = [])"
  by (cases "RFC_FISICA_REGEX n") (simp_all add: fisica_after_regex fisica_no_match Let_def push_def)

lemma moral_valid_iff:
  "\<not> isValid r \<Longrightarrow>
   isValid (validatePersonaMoral n r) = (errors (validatePersonaMoral n r) = [])"
  by (cases "RFC_MORAL_REGEX n") (simp_all add: moral_after_regex moral_no_match Let_def push_def)

lemma trim_white: "list_all isWhiteSpace s \<Longrightarrow> trim s = []"
proof -
  assume "list_all isWhiteSpace s"
  then have d: "dropWhile isWhiteSpace s = []"
    by (simp add: list_all_iff)
  show ?thesis
    unfolding trim_def d by simp
qed

lemma ab12_norm: "normalize (js ''AB12'') = js ''AB12''"
  by (rule normalize_plain) (simp add: js_def)

section \<open>Forbidden words and the inputs of the examples\<close>

lemma forbidden_all_four:
  "list_all (\<lambda>w. length w = 4 \<and> \<not> isDigit (w ! 3)) FORBIDDEN_WORDS"
  by (simp add: FORBIDDEN_WORDS_def js_def isDigit_def)

lemma forbidden_shape:
  "w \<in> set FORBIDDEN_WORDS \<Longrightarrow> length w = 4 \<and> \<not> isDigit (w ! 3)"
  using forbidden_all_four by (simp add: list_all_iff)

lemma substring_length_le: "a \<le> b \<Longrightarrow> length (substring s a b) \<le> b - a"
  by (simp add: substring_def)

lemma moral_never_forbidden: "substring n 0 3 \<notin> set FORBIDDEN_WORDS"
proof
  assume "substring n 0 3 \<in> set FORBIDDEN_WORDS"
  then have "length (substring n 0 3) = 4"
    using forbidden_shape by blast
  moreover have "length (substring n 0 3) \<le> 3"
    using substring_length_le [of 0 3 n] by simp
  ultimately show False by simp
qed

lemma cac_norm: "normalize (js ''CAC650615ABC'') = js ''CAC650615ABC''"
  by (rule normalize_plain) (simp add: js_def)

lemma gope_norm: "normalize (js ''GOPE650615ABC'') = js ''GOPE650615ABC''"
  by (rule normalize_plain) (simp add: js_def)

lemma gope_regex: "RFC_FISICA_REGEX (js ''GOPE650615ABC'')"
  by (simp add: js_def fisica_regex_explicit isLetra_def isDigit_def isAlnum_def)

lemma gope_not_forbidden: "js ''GOPE'' \<notin> set FORBIDDEN_WORDS"
  by (simp add: js_def FORBIDDEN_WORDS_def)

lemma tub_norm: "normalize (js ''TUB650615ABC'') = js ''TUB650615ABC''"
  by (rule normalize_plain) (simp add: js_def)

lemma bad_norm: "normalize (js ''GOPE011315AB-'') = js ''GOPE011315AB-''"
  by (rule normalize_plain) (simp add: js_def)

lemma bad_regex: "\<not> RFC_FISICA_REGEX (js ''GOPE011315AB-'')"
  by (simp add: js_def fisica_regex_explicit isAlnum_def)

lemma badm_norm: "normalize (js ''TUB651315AB-'') = js ''TUB651315AB-''"
  by (rule normalize_plain) (simp add: js_def)

lemma badm_regex: "\<not> RFC_MORAL_REGEX (js ''TUB651315AB-'')"
  by (simp add: js_def moral_regex_explicit isAlnum_def)

lemma matchFields_one: "matchFields [(P, k)] s = (length s = k \<and> list_all P s)"
  by (cases "length s = k") auto

lemma caca_norm: "normalize (js ''CACA651315AB'') = js ''CACA651315AB''"
  by (rule normalize_plain) (simp add: js_def)

lemma caca_forbidden: "js ''CACA'' \<in> set FORBIDDEN_WORDS"
  by (simp add: js_def FORBIDDEN_WORDS_def)

lemma caca_regex: "\<not> RFC_MORAL_REGEX (js ''CACA651315AB'')"
  by (simp add: js_def moral_regex_explicit isDigit_def)

lemma example_2024_fisica: "generateExample 2024 FISICA = js ''GOPE-10615ABC''"
  by (simp add: generateExample_def jsRem_def String_of_int_def padStart_def digitsOf.simps js_def)

lemma example_2024_moral: "generateExample 2024 MORAL = js ''TUB-10615ABC''"
  by (simp add: generateExample_def jsRem_def String_of_int_def padStart_def digitsOf.simps js_def)

lemma ex24f_norm: "normalize (js ''GOPE-10615ABC'') = js ''GOPE-10615ABC''"
  by (rule normalize_plain) (simp add: js_def)

lemma ex24m_norm: "normalize (js ''TUB-10615ABC'') = js ''TUB-10615ABC''"
  by (rule normalize_plain) (simp add: js_def)

lemma ex24f_regex: "\<not> RFC_FISICA_REGEX (js ''GOPE-10615ABC'')"
  by (simp add: js_def fisica_regex_explicit isDigit_def)

lemma ex24m_regex: "\<not> RFC_MORAL_REGEX (js ''TUB-10615ABC'')"
  by (simp add: js_def moral_regex_explicit isDigit_def)

section \<open>The claims\<close>

subsection \<open>The overall format check is a gate\<close>

text \<open>
  Claim C1, as stated: when the normalized form has length 13 but does not match the
  overall format, the granular checks still run and their errors are appended. It
  fails on \<open>GOPE011315AB-\<close>: run on its fields, the date and homoclave checks report
  the month and the homoclave, and \<open>validate\<close> reports the format error alone.
\<close>

theorem format_failure_suppresses_checks:
  "length (normalize (js ''GOPE011315AB-'')) = 13
   \<and> \<not> RFC_FISICA_REGEX (normalize (js ''GOPE011315AB-''))
   \<and> errors (validateHomoclave (substring (normalize (js ''GOPE011315AB-'')) 10 13)
        (validateFechaNacimiento 2025 (substring (normalize (js ''GOPE011315AB-'')) 4 10)
           \<lparr>isValid = False, tipoPersona = Some FISICA, length_rfc = 13,
            format = normalize (js ''GOPE011315AB-''), errors = []\<rparr>))
       = [MesNacimientoInvalido, HomoclaveInvalida]
   \<and> errors (validate 2025 (js ''GOPE011315AB-'')) = [FormatoFisicaInvalido]"
proof -
  have l: "length (js ''GOPE011315AB-'') = 13"
    by (simp add: js_def)
  have g: "errors (validateHomoclave (substring (js ''GOPE011315AB-'') 10 13)
        (validateFechaNacimiento 2025 (substring (js ''GOPE011315AB-'') 4 10)
           \<lparr>isValid = False, tipoPersona = Some FISICA, length_rfc = 13,
            format = js ''GOPE011315AB-'', errors = []\<rparr>))
       = [MesNacimientoInvalido, HomoclaveInvalida]"
    by (simp add: js_def substring_def validateHomoclave_def validateFechaNacimiento_def
        push_def Let_def parseInt10_def jsRem_def isDigit_def isAlnum_def)
  have v: "errors (validate 2025 (js ''GOPE011315AB-'')) = [FormatoFisicaInvalido]"
    unfolding validate_unfold bad_norm fisica_no_match [OF bad_regex]
    by (simp add: l push_def) (simp add: js_def)
  show ?thesis
    unfolding bad_norm using l g v bad_regex by simp
qed

text \<open>
  Claim C1, amended. When the normalized form has length 13 (respectively 12) and does
  not match the overall format of its variant, \<open>validate\<close> returns at once: the result
  is invalid, carries the person type of its length, and its only error is the format
  error of that variant. The granular checks run only after the format has matched.
\<close>

theorem format_failure_single_error:
  "(length (normalize s) = 13 \<and> \<not> RFC_FISICA_REGEX (normalize s) \<longrightarrow>
      validate y s = \<lparr>isValid = False, tipoPersona = Some FISICA, length_rfc = 13,
                      format = normalize s, errors = [FormatoFisicaInvalido]\<rparr>)
   \<and> (length (normalize s) = 12 \<and> \<not> RFC_MORAL_REGEX (normalize s) \<longrightarrow>
      validate y s = \<lparr>isValid = False, tipoPersona = Some MORAL, length_rfc = 12,
                      format = normalize s, errors = [FormatoMoralInvalido]\<rparr>)"
proof (intro conjI impI)
  assume h: "length (normalize s) = 13 \<and> \<not> RFC_FISICA_REGEX (normalize s)"
  then have "s \<noteq> []"
    by (auto simp add: normalize_def)
  with h show "validate y s = \<lparr>isValid = False, tipoPersona = Some FISICA, length_rfc = 13,
                      format = normalize s, errors = [FormatoFisicaInvalido]\<rparr>"
    by (simp add: validate_unfold fisica_no_match push_def)
next
  assume h: "length (normalize s) = 12 \<and> \<not> RFC_MORAL_REGEX (normalize s)"
  then have "s \<noteq> []"
    by (auto simp add: normalize_def)
  with h show "validate y s = \<lparr>isValid = False, tipoPersona = Some MORAL, length_rfc = 12,
                      format = normalize s, errors = [FormatoMoralInvalido]\<rparr>"
    by (simp add: validate_unfold moral_no_match push_def)
qed

theorem format_failure_single_error_witness:
  "(length (normalize (js ''GOPE011315AB-'')) = 13
     \<and> \<not> RFC_FISICA_REGEX (normalize (js ''GOPE011315AB-''))
     \<and> validate 2025 (js ''GOPE011315AB-'') =
         \<lparr>isValid = False, tipoPersona = Some FISICA, length_rfc = 13,
          format = js ''GOPE011315AB-'', errors = [FormatoFisicaInvalido]\<rparr>)
   \<and> (length (normalize (js ''TUB651315AB-'')) = 12
     \<and> \<not> RFC_MORAL_REGEX (normalize (js ''TUB651315AB-''))
     \<and> validate 2025 (js ''TUB651315AB-'') =
         \<lparr>isValid = False, tipoPersona = Some MORAL, length_rfc = 12,
          format = js ''TUB651315AB-'', errors = [FormatoMoralInvalido]\<rparr>)"
proof -
  have l13: "length (js ''GOPE011315AB-'') = 13" and l12: "length (js ''TUB651315AB-'') = 12"
    by (simp_all add: js_def)
  show ?thesis
    using format_failure_single_error [of "js ''GOPE011315AB-''" 2025]
      format_failure_single_error [of "js ''TUB651315AB-''" 2025]
    by (simp add: bad_norm badm_norm bad_regex badm_regex l13 l12)
qed

subsection \<open>The sample identifier of an individual born in 1965\<close>

text \<open>
  The input \<open>GOPE650615ABC\<close> is valid exactly in the years whose last two digits are
  55 or more: in any other year the two-digit year 65 exceeds the current one plus 10.
\<close>

lemma gope_valid_iff:
  "isValid (validate y (js ''GOPE650615ABC'')) = (55 \<le> jsRem y 100)"
proof -
  have fw: "substring (js ''GOPE650615ABC'') 0 4 \<notin> set FORBIDDEN_WORDS"
    using gope_not_forbidden by (simp add: js_def substring_def)
  show ?thesis
    unfolding validate_unfold gope_norm fisica_after_regex [OF gope_regex] Let_def
    using fw by (auto simp add: js_def substring_def parseInt10_def)
qed

text \<open>
  Claim C2. \<open>validate\<close> on \<open>GOPE650615ABC\<close> is expected to be valid with person type
  FISICA. With the clock in 2025 the person type is FISICA, but the result is invalid:
  the year 65 is above 25 + 10 and the birth-year error is pushed.
\<close>

theorem gope_rejected_in_2025:
  "validate 2025 (js ''GOPE650615ABC'') =
     \<lparr>isValid = False, tipoPersona = Some FISICA, length_rfc = 13,
      format = js ''GOPE650615ABC'', errors = [AnioNacimientoInvalido]\<rparr>"
proof -
  have fw: "substring (js ''GOPE650615ABC'') 0 4 \<notin> set FORBIDDEN_WORDS"
    using gope_not_forbidden by (simp add: js_def substring_def)
  show ?thesis
    unfolding validate_unfold gope_norm fisica_after_regex [OF gope_regex] Let_def
    using fw by (simp add: js_def substring_def parseInt10_def jsRem_def)
qed

subsection \<open>A homoclave of the wrong length\<close>

text \<open>
  Claim C3, as stated: an input with a homoclave of the wrong length, a month outside
  1 to 12 and a forbidden word as its leading field gets at least three distinct
  errors. It fails on \<open>CACA651315AB\<close>, the forbidden word \<open>CACA\<close>, the date
  \<open>651315\<close> with month 13 and the two-unit homoclave \<open>AB\<close>: the string has length
  12, does not match the format of that variant, and gets the format error alone.
\<close>

theorem multi_broken_single_error:
  "js ''CACA'' \<in> set FORBIDDEN_WORDS
   \<and> matchFields [(isDigit, 6)] (js ''651315'')
   \<and> 12 < parseInt10 (substring (js ''651315'') 2 4)
   \<and> length (js ''AB'') \<noteq> 3
   \<and> normalize (js ''CACA651315AB'') = js ''CACA'' @ js ''651315'' @ js ''AB''
   \<and> errors (validate 2025 (js ''CACA651315AB'')) = [FormatoMoralInvalido]
   \<and> \<not> 3 \<le> length (remdups (errors (validate 2025 (js ''CACA651315AB''))))"
proof -
  have l: "length (js ''CACA651315AB'') = 12"
    by (simp add: js_def)
  have v: "errors (validate 2025 (js ''CACA651315AB'')) = [FormatoMoralInvalido]"
    unfolding validate_unfold caca_norm moral_no_match [OF caca_regex]
    by (simp add: l push_def) (simp add: js_def)
  have d: "matchFields [(isDigit, 6)] (js ''651315'')"
      "12 < parseInt10 (substring (js ''651315'') 2 4)"
    by (simp_all add: js_def isDigit_def substring_def parseInt10_def)
  have c: "js ''CACA651315AB'' = js ''CACA'' @ js ''651315'' @ js ''AB''"
    by (simp add: js_def)
  show ?thesis
    unfolding caca_norm v using caca_forbidden d c by (simp add: js_def)
qed

text \<open>
  Claim C3, amended. An input whose normalized form is a forbidden word, then a
  six-digit date with a month outside 1 to 12, then a homoclave whose length is not 3,
  gets exactly one error and is invalid: the format error of the 12-unit variant when
  the homoclave has two code units, the length error otherwise.
\<close>

theorem wrong_length_homoclave_one_error:
  assumes w: "w \<in> set FORBIDDEN_WORDS"
    and d: "matchFields [(isDigit, 6)] d"
    and m: "parseInt10 (substring d 2 4) < 1 \<or> 12 < parseInt10 (substring d 2 4)"
    and h: "length h \<noteq> 3"
    and n: "normalize s = w @ d @ h"
  shows "errors (validate y s) =
           (if length h = 2 then [FormatoMoralInvalido] else [LongitudInvalida])
         \<and> \<not> isValid (validate y s)"
proof -
  from w have w4: "length w = 4" and w3: "\<not> isDigit (w ! 3)"
    using forbidden_shape by blast+
  from d have d6: "length d = 6"
    by simp
  from n w4 have ne: "s \<noteq> []"
    by (auto simp add: normalize_def)
  have len: "length (normalize s) = 10 + length h"
    by (simp add: n w4 d6)
  show ?thesis
  proof (cases "length h = 2")
    case True
    obtain a b c e where wl: "w = [a, b, c, e]"
      using w4 by (auto simp add: eval_nat_numeral length_Suc_conv)
    with w3 have "\<not> isDigit e"
      by simp
    then have "\<not> RFC_MORAL_REGEX (normalize s)"
      by (simp add: n wl RFC_MORAL_REGEX_def)
    then show ?thesis
      using True len ne by (simp add: validate_unfold moral_no_match push_def)
  next
    case False
    with h len have "length (normalize s) \<noteq> 12 \<and> length (normalize s) \<noteq> 13"
      by simp
    then show ?thesis
      using False ne by (simp add: validate_unfold)
  qed
qed

theorem wrong_length_homoclave_one_error_witness:
  "js ''CACA'' \<in> set FORBIDDEN_WORDS
   \<and> matchFields [(isDigit, 6)] (js ''651315'')
   \<and> 12 < parseInt10 (substring (js ''651315'') 2 4)
   \<and> length (js ''AB'') \<noteq> 3
   \<and> normalize (js ''CACA651315AB'') = js ''CACA'' @ js ''651315'' @ js ''AB''
   \<and> errors (validate 2025 (js ''CACA651315AB'')) = [FormatoMoralInvalido]
   \<and> \<not> isValid (validate 2025 (js ''CACA651315AB''))"
proof -
  have d: "matchFields [(isDigit, 6)] (js ''651315'')"
    by (simp add: js_def isDigit_def)
  have dl: "list_all isDigit (js ''651315'')"
    by (simp add: js_def isDigit_def)
  have m: "parseInt10 (substring (js ''651315'') 2 4) < 1
           \<or> 12 < parseInt10 (substring (js ''651315'') 2 4)"
    by (simp add: js_def substring_def parseInt10_def)
  have h: "length (js ''AB'') \<noteq> 3"
    by (simp add: js_def)
  have c: "normalize (js ''CACA651315AB'') = js ''CACA'' @ js ''651315'' @ js ''AB''"
    unfolding caca_norm by (simp add: js_def)
  have l2: "length (js ''AB'') = 2"
    by (simp add: js_def)
  have m12: "12 < parseInt10 (substring (js ''651315'') 2 4)"
    by (simp add: js_def substring_def parseInt10_def)
  show ?thesis
    using wrong_length_homoclave_one_error [OF caca_forbidden d m h c, of 2025]
      caca_forbidden dl m12 h c
    by (simp add: l2) (simp add: js_def)
qed

text \<open>
  Errors do accumulate once the overall format has matched: a forbidden word, a month
  outside 1 to 12 and a day outside 1 to 31 before a well-formed homoclave are reported
  together.
\<close>

lemma accumulation_after_format:
  assumes w: "w \<in> set FORBIDDEN_WORDS"
    and d: "matchFields [(isDigit, 6)] d"
    and m: "parseInt10 (substring d 2 4) < 1 \<or> 12 < parseInt10 (substring d 2 4)"
    and dy: "parseInt10 (substring d 4 6) < 1 \<or> 31 < parseInt10 (substring d 4 6)"
    and h: "matchFields [(isAlnum, 3)] h"
    and n: "normalize s = w @ d @ h"
  shows "{MesNacimientoInvalido, DiaNacimientoInvalido, InicialesProhibidas w}
           \<subseteq> set (errors (validate y s))"
proof -
  from w have w4: "length w = 4"
    using forbidden_shape by blast
  have wl: "list_all isLetra w"
    using w by (auto simp add: FORBIDDEN_WORDS_def js_def isLetra_def)
  from d have d6: "length d = 6" and dd: "list_all isDigit d"
    by (simp_all only: matchFields_one)
  from h have h3: "length h = 3" and hh: "list_all isAlnum h"
    by (simp_all only: matchFields_one)
  from n w4 have ne: "s \<noteq> []"
    by (auto simp add: normalize_def)
  have re: "RFC_FISICA_REGEX (normalize s)"
    using w4 wl d6 dd h3 hh by (simp add: n RFC_FISICA_REGEX_def)
  have f: "substring (normalize s) 4 10 = d" and i: "substring (normalize s) 0 4 = w"
    using w4 d6 by (simp_all add: n substring_def)
  have "length (normalize s) = 13"
    by (simp add: n w4 d6 h3)
  then show ?thesis
    using ne w m dy by (auto simp add: validate_unfold fisica_after_regex [OF re] Let_def f i)
qed

subsection \<open>No forbidden word for an organization\<close>

text \<open>
  Claim C4. Every entry of the forbidden-word list has four code units, and for an
  input whose normalized form has length 12 the result of \<open>validate\<close> holds no
  forbidden-word error, whatever the word: the leading field of that variant has three
  code units at most, so the membership test cannot succeed.
\<close>

theorem moral_no_forbidden_word_error:
  "list_all (\<lambda>v. length v = 4) FORBIDDEN_WORDS
   \<and> (length (normalize s) = 12 \<longrightarrow> InicialesProhibidas w \<notin> set (errors (validate y s)))"
proof
  show "list_all (\<lambda>v. length v = 4) FORBIDDEN_WORDS"
    using forbidden_all_four by (simp add: list_all_iff)
  show "length (normalize s) = 12 \<longrightarrow> InicialesProhibidas w \<notin> set (errors (validate y s))"
  proof
    assume len: "length (normalize s) = 12"
    then have ne: "s \<noteq> []"
      by (auto simp add: normalize_def)
    show "InicialesProhibidas w \<notin> set (errors (validate y s))"
    proof (cases "RFC_MORAL_REGEX (normalize s)")
      case True
      then show ?thesis
        using len ne
        by (simp add: validate_unfold moral_after_regex moral_never_forbidden Let_def)
    next
      case False
      then show ?thesis
        using len ne by (simp add: validate_unfold moral_no_match push_def)
    qed
  qed
qed

theorem moral_no_forbidden_word_error_witness:
  "length (normalize (js ''CAC650615ABC'')) = 12
   \<and> InicialesProhibidas (js ''CAC'') \<notin> set (errors (validate 2025 (js ''CAC650615ABC'')))"
  using moral_no_forbidden_word_error [of "js ''CAC650615ABC''" "js ''CAC''" 2025]
  by (simp add: cac_norm) (simp add: js_def)

subsection \<open>The plausibility of the birth year\<close>

text \<open>
  Claim C5. For an input whose normalized form has length 13 and matches the overall
  format of that variant, the birth-year error is reported exactly when the two-digit
  year at positions 4 and 5 exceeds the current two-digit year plus 10; for an input
  whose normalized form has length 12 that error is never reported. The current year is
  the argument \<open>y\<close>.
\<close>

theorem birth_year_plausibility:
  "(length (normalize s) = 13 \<and> RFC_FISICA_REGEX (normalize s) \<longrightarrow>
      (AnioNacimientoInvalido \<in> set (errors (validate y s)))
        = (jsRem y 100 + 10 < parseInt10 (substring (normalize s) 4 6)))
   \<and> (length (normalize s) = 12 \<longrightarrow> AnioNacimientoInvalido \<notin> set (errors (validate y s)))"
proof (intro conjI impI)
  assume h: "length (normalize s) = 13 \<and> RFC_FISICA_REGEX (normalize s)"
  then have ne: "s \<noteq> []"
    by (auto simp add: normalize_def)
  have yr: "substring (substring (normalize s) 4 10) 0 2 = substring (normalize s) 4 6"
    by (simp add: substring_def)
  show "(AnioNacimientoInvalido \<in> set (errors (validate y s)))
        = (jsRem y 100 + 10 < parseInt10 (substring (normalize s) 4 6))"
    using h ne by (simp add: validate_unfold fisica_after_regex Let_def yr)
next
  assume len: "length (normalize s) = 12"
  then have ne: "s \<noteq> []"
    by (auto simp add: normalize_def)
  show "AnioNacimientoInvalido \<notin> set (errors (validate y s))"
  proof (cases "RFC_MORAL_REGEX (normalize s)")
    case True
    then show ?thesis
      using len ne by (simp add: validate_unfold moral_after_regex Let_def)
  next
    case False
    then show ?thesis
      using len ne by (simp add: validate_unfold moral_no_match push_def)
  qed
qed

theorem birth_year_plausibility_witness:
  "(length (normalize (js ''GOPE650615ABC'')) = 13
      \<and> RFC_FISICA_REGEX (normalize (js ''GOPE650615ABC''))
      \<and> AnioNacimientoInvalido \<in> set (errors (validate 2025 (js ''GOPE650615ABC''))))
   \<and> (length (normalize (js ''TUB650615ABC'')) = 12
      \<and> AnioNacimientoInvalido \<notin> set (errors (validate 2025 (js ''TUB650615ABC''))))"
proof -
  have yr: "jsRem 2025 100 + 10 < parseInt10 (substring (js ''GOPE650615ABC'') 4 6)"
    by (simp add: js_def substring_def parseInt10_def jsRem_def)
  have l13: "length (js ''GOPE650615ABC'') = 13" and l12: "length (js ''TUB650615ABC'') = 12"
    by (simp_all add: js_def)
  show ?thesis
    using birth_year_plausibility [of "js ''GOPE650615ABC''" 2025]
      birth_year_plausibility [of "js ''TUB650615ABC''" 2025]
    by (simp add: gope_norm tub_norm gope_regex yr l13 l12)
qed

subsection \<open>Generated examples\<close>

text \<open>
  Claim C6. The example generated for a person type is expected to validate, with that
  person type, in the year it is generated. With the clock in 2024 the difference
  \<open>24 - 25\<close> is negative, \<^verbatim>\<open>String(-1).padStart(2, '0')\<close> is \<^verbatim>\<open>-1\<close>, and
  both examples carry a minus sign in their date and fail the overall format.
\<close>

theorem generateExample_invalid_in_2024:
  "generateExample 2024 FISICA = js ''GOPE-10615ABC''
   \<and> validate 2024 (generateExample 2024 FISICA) =
       \<lparr>isValid = False, tipoPersona = Some FISICA, length_rfc = 13,
        format = js ''GOPE-10615ABC'', errors = [FormatoFisicaInvalido]\<rparr>
   \<and> generateExample 2024 MORAL = js ''TUB-10615ABC''
   \<and> validate 2024 (generateExample 2024 MORAL) =
       \<lparr>isValid = False, tipoPersona = Some MORAL, length_rfc = 12,
        format = js ''TUB-10615ABC'', errors = [FormatoMoralInvalido]\<rparr>"
proof -
  have l13: "length (js ''GOPE-10615ABC'') = 13" and l12: "length (js ''TUB-10615ABC'') = 12"
    by (simp_all add: js_def)
  have f: "validate 2024 (js ''GOPE-10615ABC'') =
       \<lparr>isValid = False, tipoPersona = Some FISICA, length_rfc = 13,
        format = js ''GOPE-10615ABC'', errors = [FormatoFisicaInvalido]\<rparr>"
    unfolding validate_unfold ex24f_norm fisica_no_match [OF ex24f_regex]
    by (simp add: l13 push_def) (simp add: js_def)
  have m: "validate 2024 (js ''TUB-10615ABC'') =
       \<lparr>isValid = False, tipoPersona = Some MORAL, length_rfc = 12,
        format = js ''TUB-10615ABC'', errors = [FormatoMoralInvalido]\<rparr>"
    unfolding validate_unfold ex24m_norm moral_no_match [OF ex24m_regex]
    by (simp add: l12 push_def) (simp add: js_def)
  show ?thesis
    unfolding example_2024_fisica example_2024_moral using f m by simp
qed

lemma two_digits:
  "k < 100 \<Longrightarrow> padStart (digitsOf k) 2 48 = [48 + k div 10, 48 + k mod 10]"
proof (cases "k < 10")
  case True
  then show ?thesis
    by (simp add: digitsOf.simps [of k] padStart_def)
next
  case False
  assume "k < 100"
  then have "k div 10 < 10"
    by simp
  then have "digitsOf (k div 10) = [48 + k div 10]"
    by (simp add: digitsOf.simps [of "k div 10"])
  with False show ?thesis
    by (simp add: digitsOf.simps [of k] padStart_def)
qed

lemma jsRem_100_bound: "jsRem y 100 < 100"
proof -
  have "\<bar>y\<bar> mod 100 < 100" by simp
  then show ?thesis
    by (cases "y < 0"; cases "y = 0") (simp_all add: jsRem_def sgn_if)
qed

text \<open>
  From the year 25 of a century on, both examples validate with their person type.
\<close>

lemma generateExample_from_25:
  assumes "25 \<le> jsRem y 100"
  shows "validate y (generateExample y FISICA) =
           \<lparr>isValid = True, tipoPersona = Some FISICA, length_rfc = 13,
            format = generateExample y FISICA, errors = []\<rparr>
         \<and> validate y (generateExample y MORAL) =
           \<lparr>isValid = True, tipoPersona = Some MORAL, length_rfc = 12,
            format = generateExample y MORAL, errors = []\<rparr>"
proof -
  define k where "k = nat (jsRem y 100 - 25)"
  have k: "k < 75" and ky: "int k = jsRem y 100 - 25"
    using assms jsRem_100_bound [of y] by (simp_all add: k_def)
  define p where "p = k div 10"
  define q where "q = k mod 10"
  have pq: "p < 8" "q < 10" "k = 10 * p + q"
    using k by (simp_all add: p_def q_def)
  have yr: "padStart (String_of_int (jsRem y 100 - 25)) 2 48 = [48 + p, 48 + q]"
    using assms k two_digits [of k] by (simp add: String_of_int_def k_def p_def q_def)
  have ef: "generateExample y FISICA = js ''GOPE'' @ [48 + p, 48 + q] @ js ''0615ABC''"
    by (simp add: generateExample_def yr Let_def js_def)
  have em: "generateExample y MORAL = js ''TUB'' @ [48 + p, 48 + q] @ js ''0615ABC''"
    by (simp add: generateExample_def yr Let_def js_def)
  have nf: "normalize (generateExample y FISICA) = generateExample y FISICA"
    using pq by (intro normalize_plain) (simp add: ef js_def)
  have nm: "normalize (generateExample y MORAL) = generateExample y MORAL"
    using pq by (intro normalize_plain) (simp add: em js_def)
  have rf: "RFC_FISICA_REGEX (generateExample y FISICA)"
    using pq by (simp add: ef js_def fisica_regex_explicit isLetra_def isDigit_def isAlnum_def)
  have rm: "RFC_MORAL_REGEX (generateExample y MORAL)"
    using pq by (simp add: em js_def moral_regex_explicit isLetra_def isDigit_def isAlnum_def)
  have gf: "substring (generateExample y FISICA) 0 4 \<notin> set FORBIDDEN_WORDS"
    using gope_not_forbidden by (simp add: ef js_def substring_def)
  have year: "parseInt10 [48 + p, 48 + q] = int k"
    using pq by (simp add: parseInt10_def)
  have lf: "length (generateExample y FISICA) = 13" and lm: "length (generateExample y MORAL) = 12"
    by (simp_all add: ef em js_def)
  have nef: "generateExample y FISICA \<noteq> []" and nem: "generateExample y MORAL \<noteq> []"
    by (simp_all add: ef em js_def)
  have sf: "substring (substring (generateExample y FISICA) 4 10) 0 2 = [48 + p, 48 + q]"
      "parseInt10 (substring (substring (generateExample y FISICA) 4 10) 2 4) = 6"
      "parseInt10 (substring (substring (generateExample y FISICA) 4 10) 4 6) = 15"
    by (simp_all add: ef js_def substring_def parseInt10_def)
  have sm: "parseInt10 (substring (substring (generateExample y MORAL) 3 9) 2 4) = 6"
      "parseInt10 (substring (substring (generateExample y MORAL) 3 9) 4 6) = 15"
    by (simp_all add: em js_def substring_def parseInt10_def)
  have f: "validate y (generateExample y FISICA) =
           \<lparr>isValid = True, tipoPersona = Some FISICA, length_rfc = 13,
            format = generateExample y FISICA, errors = []\<rparr>"
    unfolding validate_unfold nf fisica_after_regex [OF rf] Let_def sf year
    using gf ky nef lf by simp
  have m: "validate y (generateExample y MORAL) =
           \<lparr>isValid = True, tipoPersona = Some MORAL, length_rfc = 12,
            format = generateExample y MORAL, errors = []\<rparr>"
    unfolding validate_unfold nm moral_after_regex [OF rm] Let_def sm
    using nem lm by (simp add: moral_never_forbidden)
  from f m show ?thesis ..
qed

lemma digitsOf_digits: "digitsOf k \<noteq> [] \<and> list_all isDigit (digitsOf k)"
proof (induction k rule: digitsOf.induct)
  case (1 n)
  show ?case
  proof (cases "n < 10")
    case True
    then show ?thesis
      by (simp add: digitsOf.simps [of n] isDigit_def)
  next
    case False
    have "n mod 10 < 10" by simp
    then have "isDigit (48 + n mod 10)"
      unfolding isDigit_def by linarith
    with False "1.IH" show ?thesis
      by (simp add: digitsOf.simps [of n])
  qed
qed

text \<open>
  Before the year 25 of a century neither example validates: the year is rendered with
  a minus sign.
\<close>

lemma generateExample_before_25:
  assumes "jsRem y 100 < 25"
  shows "\<not> isValid (validate y (generateExample y t))"
proof -
  define ds where "ds = digitsOf (nat (25 - jsRem y 100))"
  have dd: "list_all isDigit ds" and dn: "ds \<noteq> []"
    using digitsOf_digits by (simp_all add: ds_def)
  have yr: "padStart (String_of_int (jsRem y 100 - 25)) 2 48 = 45 # ds"
  proof -
    have "String_of_int (jsRem y 100 - 25) = 45 # ds"
      using assms by (simp add: String_of_int_def ds_def)
    moreover have "2 \<le> length (45 # ds)"
      using dn by (cases ds) simp_all
    ultimately show ?thesis
      by (simp add: padStart_def)
  qed
  define e where "e = generateExample y t"
  have ex: "e = (if t = FISICA then js ''GOPE'' else js ''TUB'') @ 45 # ds @ js ''0615ABC''"
    by (simp add: e_def generateExample_def yr Let_def js_def)
  have plain: "list_all (\<lambda>c. 33 \<le> c \<and> c \<le> 96) ds"
    using dd by (induction ds) (simp_all add: isDigit_def)
  have norm: "normalize e = e"
    using plain by (intro normalize_plain) (simp add: ex js_def)
  have ne: "e \<noteq> []"
    by (simp add: ex)
  have nf: "\<not> RFC_FISICA_REGEX e"
    by (simp add: ex js_def RFC_FISICA_REGEX_def isDigit_def isLetra_def)
  have nm: "\<not> RFC_MORAL_REGEX e"
    by (simp add: ex js_def RFC_MORAL_REGEX_def isDigit_def isLetra_def)
  show ?thesis
    unfolding e_def [symmetric]
    using ne nf nm by (simp add: validate_unfold norm fisica_no_match moral_no_match push_def)
qed

subsection \<open>Classification by length\<close>

text \<open>
  Claim C7. For every string \<open>s\<close>, \<open>getTipoPersona s\<close> is FISICA when the normalized
  form of \<open>s\<close> has 13 code units, MORAL when it has 12, and none otherwise; and the
  \<open>tipoPersona\<close> of \<open>validate s\<close> is the same value, whether or not the result is
  valid and whatever the year of the clock.
\<close>

theorem getTipoPersona_by_length:
  "getTipoPersona s =
     (if length (normalize s) = 13 then Some FISICA
      else if length (normalize s) = 12 then Some MORAL else None)
   \<and> tipoPersona (validate y s) = getTipoPersona s"
proof
  show g: "getTipoPersona s =
     (if length (normalize s) = 13 then Some FISICA
      else if length (normalize s) = 12 then Some MORAL else None)"
    by (simp add: getTipoPersona_def normalize_def Let_def)
  show "tipoPersona (validate y s) = getTipoPersona s"
    unfolding g by (simp add: validate_unfold fisica_tipo moral_tipo normalize_def)
qed

subsection \<open>Validity and the error list\<close>

text \<open>
  Claim C8. For every input, \<open>isValid\<close> of the result holds exactly when its error list
  is empty; and on each path that returns early (empty input, a length other than 12
  and 13, an overall format that does not match) the result is invalid with a non-empty
  error list.
\<close>

theorem isValid_iff_no_errors:
  "(isValid (validate y s) = (errors (validate y s) = []))
   \<and> (s = [] \<or> (length (normalize s) \<noteq> 12 \<and> length (normalize s) \<noteq> 13)
        \<or> (length (normalize s) = 13 \<and> \<not> RFC_FISICA_REGEX (normalize s))
        \<or> (length (normalize s) = 12 \<and> \<not> RFC_MORAL_REGEX (normalize s))
      \<longrightarrow> \<not> isValid (validate y s) \<and> errors (validate y s) \<noteq> [])"
proof
  show "isValid (validate y s) = (errors (validate y s) = [])"
    by (simp add: validate_unfold fisica_valid_iff moral_valid_iff)
  show "s = [] \<or> (length (normalize s) \<noteq> 12 \<and> length (normalize s) \<noteq> 13)
        \<or> (length (normalize s) = 13 \<and> \<not> RFC_FISICA_REGEX (normalize s))
        \<or> (length (normalize s) = 12 \<and> \<not> RFC_MORAL_REGEX (normalize s))
      \<longrightarrow> \<not> isValid (validate y s) \<and> errors (validate y s) \<noteq> []"
    by (auto simp add: validate_unfold fisica_no_match moral_no_match push_def)
qed

theorem isValid_iff_no_errors_witness:
  "(length (normalize (js ''AB12'')) \<noteq> 12 \<and> length (normalize (js ''AB12'')) \<noteq> 13)
   \<and> \<not> isValid (validate 2025 (js ''AB12'')) \<and> errors (validate 2025 (js ''AB12'')) \<noteq> []"
  using isValid_iff_no_errors [of 2025 "js ''AB12''"]
  by (simp add: ab12_norm) (simp add: js_def)

subsection \<open>Idempotent normalization\<close>

text \<open>Some values of the case table, among them those used below.\<close>

lemma upperPoint_samples:
  "upperPoint 97 = [65]" "upperPoint 181 = [924]" "upperPoint 223 = [83, 83]"
  "upperPoint 241 = [209]" "upperPoint 255 = [376]" "upperPoint 329 = [700, 78]"
  "upperPoint 383 = [83]" "upperPoint 64257 = [70, 73]" "upperPoint 66600 = [66560]"
  "upperPoint 55297 = [55297]" "upperPoint 56360 = [56360]"
  by (simp_all add: upperPoint_tree UPPER_TREE_def)

text \<open>
  Claim C9, as stated: normalizing a normalized string changes nothing, for every
  string. It fails on the three code units U+D801, U+0020, U+DC28: the two surrogates
  are unpaired and have no upper case, removing the space between them leaves the pair
  of the code point U+10428, and a second normalization replaces that code point by its
  upper case U+10400, the pair U+D801, U+DC00.
\<close>

theorem normalize_not_idempotent:
  "normalize [55297, 32, 56360] = [55297, 56360]
   \<and> normalize (normalize [55297, 32, 56360]) = [55297, 56320]
   \<and> normalize (normalize [55297, 32, 56360]) \<noteq> normalize [55297, 32, 56360]"
proof -
  have first: "normalize [55297, 32, 56360] = [55297, 56360]"
    by (simp add: normalize_def trim_def isWhiteSpace_def toUpperCase_def
        isHighSurrogate_def isLowSurrogate_def codeUnits_def removeWhiteSpace_def
        upperPoint_samples upperPoint_below_97)
  have second: "normalize [55297, 56360] = [55297, 56320]"
    by (simp add: normalize_def trim_def isWhiteSpace_def toUpperCase_def
        isHighSurrogate_def isLowSurrogate_def codeUnits_def removeWhiteSpace_def
        upperPoint_samples)
  show ?thesis
    unfolding first second by simp
qed

text \<open>
  Claim C9, amended. Normalization is idempotent on every string without unpaired
  surrogates, that is, on every string whose code points are all scalar values.
\<close>

theorem normalize_idempotent_well_formed:
  "list_all isScalarValue (codePoints s) \<Longrightarrow> normalize (normalize s) = normalize s"
  by (rule normalize_well_formed)

theorem normalize_idempotent_well_formed_witness:
  "list_all isScalarValue (codePoints [32, 55297, 56360, 32, 241, 32])
   \<and> normalize [32, 55297, 56360, 32, 241, 32] = [55297, 56320, 209]
   \<and> normalize (normalize [32, 55297, 56360, 32, 241, 32])
       = normalize [32, 55297, 56360, 32, 241, 32]"
proof -
  have wf: "list_all isScalarValue (codePoints [32, 55297, 56360, 32, 241, 32])"
    by (simp add: isScalarValue_def isHighSurrogate_def isLowSurrogate_def)
  have v: "normalize [32, 55297, 56360, 32, 241, 32] = [55297, 56320, 209]"
    by (simp add: normalize_def trim_def isWhiteSpace_def toUpperCase_def
        isHighSurrogate_def isLowSurrogate_def codeUnits_def removeWhiteSpace_def
        upperPoint_samples upperPoint_below_97)
  from wf v show ?thesis
    using normalize_idempotent_well_formed [OF wf] by simp
qed

subsection \<open>White space only\<close>

text \<open>
  Claim C10. A non-empty input made of white space only passes the emptiness guard,
  which tests the raw string, and is normalized to the empty string: the result is the
  length error alone, with length 0, the empty format and no person type.
\<close>

theorem whitespace_only_length_error:
  "s \<noteq> [] \<Longrightarrow> list_all isWhiteSpace s \<Longrightarrow>
   validate y s = \<lparr>isValid = False, tipoPersona = None, length_rfc = 0, format = [],
                   errors = [LongitudInvalida]\<rparr>"
  by (simp add: validate_unfold normalize_clean trim_white toUpperCase_def removeWhiteSpace_def)

theorem whitespace_only_length_error_witness:
  "[32, 9, 160] \<noteq> [] \<and> list_all isWhiteSpace [32, 9, 160]
   \<and> validate 2025 [32, 9, 160] =
       \<lparr>isValid = False, tipoPersona = None, length_rfc = 0, format = [],
        errors = [LongitudInvalida]\<rparr>"
  using whitespace_only_length_error [of "[32, 9, 160]" 2025]
  by (simp add: isWhiteSpace_def)

end
